theory Spec2Isabelle
  imports Complex_Main "HOL-Library.Sublist" "HOL-Library.Word"
begin

section \<open>JavaScript numbers and decimal strings\<close>

text \<open>
  The errors the modelled code can raise: a \<open>TypeError\<close> of the language (a property read
  on \<open>null\<close> or \<open>undefined\<close>), the DOM's \<open>NotFoundError\<close> and
  \<open>HierarchyRequestError\<close>, and \<open>throw new Error(msg)\<close>.
\<close>

datatype error = TypeError | NotFoundError | HierarchyRequestError | Error string

text \<open>
  A JavaScript number as the slide deck computes it from the URL hash: an integer,
  \<open>Infinity\<close> or \<open>NaN\<close>. \<open>Num i\<close> stands for the double equal to \<open>i\<close>; doubles are exact on
  integers up to \<open>2 ^ 53\<close>, and the theorems about numbers read from text carry that
  bound.
\<close>

datatype number = Num int | PosInfinity | NaN

fun js_sub :: "number \<Rightarrow> int \<Rightarrow> number" where
  "js_sub (Num a) b = Num (a - b)"
| "js_sub PosInfinity b = PosInfinity"
| "js_sub NaN b = NaN"

definition is_digit :: "char \<Rightarrow> bool" where
  "is_digit c = (c \<in> set ''0123456789'')"

definition digit_char :: "nat \<Rightarrow> char" where
  "digit_char n = ''0123456789'' ! (n mod 10)"

definition digit_val :: "char \<Rightarrow> nat" where
  "digit_val c = of_char c - 48"

text \<open>\<open>String(n)\<close> for a non-negative integer, and for an integer.\<close>

fun nat_to_string :: "nat \<Rightarrow> string" where
  "nat_to_string n =
     (if n < 10 then [digit_char n] else nat_to_string (n div 10) @ [digit_char (n mod 10)])"

declare nat_to_string.simps [simp del]

definition int_to_string :: "int \<Rightarrow> string" where
  "int_to_string i = (if i < 0 then CHR ''-'' # nat_to_string (nat (- i)) else nat_to_string (nat i))"

text \<open>The value of a run of decimal digits, read left to right.\<close>

definition decimal :: "string \<Rightarrow> nat" where
  "decimal ds = foldl (\<lambda>a c. 10 * a + digit_val c) 0 ds"

text \<open>
  \<open>Number(s)\<close> for a group captured from the URL hash, which is a run of decimal digits
  or \<open>Infinity\<close>; the empty string and a signed run of digits are read as well. No other
  string reaches this function: the number of an attribute value, which can have any
  form, is \<open>Number_attr\<close> below.
\<close>

definition ToNumber :: "string \<Rightarrow> number" where
  "ToNumber s =
     (if s = [] then Num 0
      else if list_all is_digit s then Num (int (decimal s))
      else if s = ''Infinity'' \<or> s = ''+Infinity'' then PosInfinity
      else if hd s = CHR ''-'' \<and> tl s \<noteq> [] \<and> list_all is_digit (tl s) then Num (- int (decimal (tl s)))
      else if hd s = CHR ''+'' \<and> tl s \<noteq> [] \<and> list_all is_digit (tl s) then Num (int (decimal (tl s)))
      else NaN)"

section \<open>Keybinding registry\<close>

text \<open>
  \<open>registeredElements\<close> maps a key to the ordered list of the \<open>gluon-keybinding\<close>
  elements registered for it. Elements are objects, known by identity; the state keeps
  what the code reads of each: its \<open>key\<close> and \<open>override\<close> attributes and whether its
  \<open>offsetParent\<close> is an element (\<open>True\<close>) or \<open>null\<close> (\<open>False\<close>). Keys that name a
  property of \<open>Object.prototype\<close> are outside the model.
\<close>

type_synonym elem = nat

record keybindings =
  registeredElements :: "string \<Rightarrow> elem list option"
  keyAttr :: "elem \<Rightarrow> string option"
  overrideAttr :: "elem \<Rightarrow> string option"
  offsetParent :: "elem \<Rightarrow> bool"

text \<open>The getter \<open>override\<close>: \<open>'' === this.getAttribute('override')\<close>.\<close>

definition override :: "keybindings \<Rightarrow> elem \<Rightarrow> bool" where
  "override st this = (overrideAttr st this = Some [])"

text \<open>Truthiness of an attribute value: a string that is not empty (\<open>null\<close> is \<open>None\<close>).\<close>

fun truthy_attr :: "string option \<Rightarrow> bool" where
  "truthy_attr None = False"
| "truthy_attr (Some s) = (s \<noteq> [])"

text \<open>
  \<open>__register(a, b)\<close>: leave the list of the old key \<open>b\<close> (\<open>indexOf\<close> and \<open>splice\<close> take
  the first occurrence out, an emptied list is deleted), then join the list of the new
  key \<open>a\<close>: at the front (\<open>unshift\<close>) when the element has \<open>override\<close>, at the back
  (\<open>push\<close>) otherwise.
\<close>

definition unregister :: "keybindings \<Rightarrow> elem \<Rightarrow> string option \<Rightarrow> keybindings" where
  "unregister st this b =
     (case b of
        None \<Rightarrow> st
      | Some k \<Rightarrow>
          (if k = [] then st
           else case registeredElements st k of
                  None \<Rightarrow> st
                | Some l \<Rightarrow>
                    (if this \<in> set l
                     then st\<lparr>registeredElements := (registeredElements st)
                            (k := (if remove1 this l = [] then None else Some (remove1 this l)))\<rparr>
                     else st)))"

definition register :: "keybindings \<Rightarrow> elem \<Rightarrow> string option \<Rightarrow> string option \<Rightarrow> keybindings" where
  "register st this a b =
     (let st1 = unregister st this b in
      if truthy_attr a
      then (let k = the a;
                l = (case registeredElements st1 k of None \<Rightarrow> [] | Some l \<Rightarrow> l)
            in st1\<lparr>registeredElements := (registeredElements st1)
                    (k := Some (if override st1 this then this # l else l @ [this]))\<rparr>)
      else st1)"

text \<open>\<open>__override(a)\<close>: move the element to the front of the list of its key.\<close>

definition override_front :: "keybindings \<Rightarrow> elem \<Rightarrow> string option \<Rightarrow> keybindings" where
  "override_front st this a =
     (if truthy_attr a
      then (case registeredElements st (the a) of
              None \<Rightarrow> st
            | Some l \<Rightarrow>
                (if this \<in> set l
                 then st\<lparr>registeredElements := (registeredElements st)
                        (the a := Some (this # remove1 this l))\<rparr>
                 else st))
      else st)"

text \<open>
  \<open>attributeChangedCallback(a, b, c)\<close> of \<open>GluonKeybinding\<close>, and \<open>setAttribute\<close> on such
  an element for its two observed attributes: the attribute is written, then the
  callback runs with the old and the new value.
\<close>

definition kb_attributeChangedCallback ::
  "keybindings \<Rightarrow> elem \<Rightarrow> string \<Rightarrow> string option \<Rightarrow> string option \<Rightarrow> keybindings" where
  "kb_attributeChangedCallback st this a b c =
     (let st1 = (if a = ''key'' then register st this c b else st)
      in if a = ''override'' then override_front st1 this (keyAttr st1 this) else st1)"

definition kb_setAttribute :: "keybindings \<Rightarrow> elem \<Rightarrow> string \<Rightarrow> string \<Rightarrow> keybindings" where
  "kb_setAttribute st this a v =
     (if a = ''key''
      then kb_attributeChangedCallback (st\<lparr>keyAttr := (keyAttr st)(this := Some v)\<rparr>)
             this a (keyAttr st this) (Some v)
      else if a = ''override''
      then kb_attributeChangedCallback (st\<lparr>overrideAttr := (overrideAttr st)(this := Some v)\<rparr>)
             this a (overrideAttr st this) (Some v)
      else st)"

text \<open>
  The callback given to \<open>every\<close> in \<open>handleKeydown\<close>: a visible element is clicked and
  the traversal goes on when the callback returns \<open>!b.override\<close>; for an element whose
  \<open>offsetParent\<close> is \<open>null\<close> the callback returns \<open>undefined\<close>, which ends the traversal.
  The result is the list of the elements clicked, in order (\<open>stopPropagation\<close> is called
  before each click). What a click handler does is not part of the model.
\<close>

fun every_click :: "keybindings \<Rightarrow> elem list \<Rightarrow> elem list" where
  "every_click st [] = []"
| "every_click st (b # bs) =
     (if offsetParent st b
      then b # (if \<not> override st b then every_click st bs else [])
      else [])"

record keyboardEvent =
  key :: string
  defaultPrevented :: bool

definition handleKeydown :: "keybindings \<Rightarrow> keyboardEvent \<Rightarrow> elem list" where
  "handleKeydown st a =
     (if defaultPrevented a then []
      else case registeredElements st (key a) of
             None \<Rightarrow> []
           | Some l \<Rightarrow> every_click st l)"

section \<open>Slide deck: the URL hash\<close>

text \<open>
  \<open>currentHash().match(/(?:slide-(\d+))?(?:\/step-(\d+|Infinity))?/)\<close>. Both groups are
  optional and the expression is not anchored at the end, so the match starts at the
  first character and always succeeds: group 1 is the longest run of digits after a
  leading \<open>slide-\<close>, group 2 the longest run of digits, or else \<open>Infinity\<close>, after a
  \<open>/step-\<close> that follows at once. A group that does not take part is \<open>undefined\<close>
  (\<open>None\<close>). The argument is the string \<open>currentHash()\<close> returns: the decoded hash
  without its \<open>#\<close>.
\<close>

definition strip_prefix :: "string \<Rightarrow> string \<Rightarrow> string option" where
  "strip_prefix p s = (if prefix p s then Some (drop (length p) s) else None)"

definition hash_match :: "string \<Rightarrow> string option \<times> string option" where
  "hash_match h =
     (let (g1, rest) =
            (case strip_prefix ''slide-'' h of
               None \<Rightarrow> (None, h)
             | Some r \<Rightarrow>
                 (if takeWhile is_digit r = [] then (None, h)
                  else (Some (takeWhile is_digit r), dropWhile is_digit r)));
          g2 =
            (case strip_prefix ''/step-'' rest of
               None \<Rightarrow> None
             | Some r \<Rightarrow>
                 (if takeWhile is_digit r \<noteq> [] then Some (takeWhile is_digit r)
                  else if prefix ''Infinity'' r then Some ''Infinity''
                  else None))
      in (g1, g2))"

text \<open>
  \<open>(group || 1) - 1\<close>: a captured group is a string that is not empty, hence truthy,
  and the subtraction converts it to a number.
\<close>

definition group_or_1_minus_1 :: "string option \<Rightarrow> number" where
  "group_or_1_minus_1 g = (case g of None \<Rightarrow> js_sub (Num 1) 1 | Some s \<Rightarrow> js_sub (ToNumber s) 1)"

definition currentSlide :: "string \<Rightarrow> number" where
  "currentSlide currentHash = group_or_1_minus_1 (fst (hash_match currentHash))"

definition currentStep :: "string \<Rightarrow> number" where
  "currentStep currentHash = group_or_1_minus_1 (snd (hash_match currentHash))"

section \<open>Slide: the step attribute\<close>

text \<open>
  The number read from an attribute can be any double: a finite one, given by its
  exact value, an infinity or \<open>NaN\<close>.
\<close>

datatype double = Finite rat | PlusInfinity | MinusInfinity | NotANumber

text \<open>\<open>a > b\<close> and \<open>a < b\<close> on doubles: every comparison with \<open>NaN\<close> is false.\<close>

fun js_gt :: "double \<Rightarrow> double \<Rightarrow> bool" where
  "js_gt (Finite a) (Finite b) = (a > b)"
| "js_gt (Finite a) MinusInfinity = True"
| "js_gt PlusInfinity (Finite b) = True"
| "js_gt PlusInfinity MinusInfinity = True"
| "js_gt a b = False"

definition js_lt :: "double \<Rightarrow> double \<Rightarrow> bool" where
  "js_lt a b = js_gt b a"

text \<open>
  \<open>t - 1\<close>. The difference of a finite double and \<open>1\<close> is kept as it is, not rounded to
  a double; the code only compares it with the index of an array element.
\<close>

fun js_minus_1 :: "double \<Rightarrow> double" where
  "js_minus_1 (Finite a) = Finite (a - 1)"
| "js_minus_1 a = a"

text \<open>
  What \<open>SlidemSlideBase\<close> keeps of a slide: \<open>this.steps\<close> and \<open>this._steps\<close>, both
  \<open>undefined\<close> (\<open>None\<close>) until \<open>connectedCallback\<close> has run, and the \<open>step\<close> attribute.
  \<open>connectedCallback\<close> sets \<open>this.steps\<close> to \<open>this._steps.length\<close>, the length of an
  array: an unsigned 32-bit integer. Of each \<open>[reveal]\<close> element in \<open>_steps\<close> only
  \<open>style.opacity\<close> is kept.
\<close>

record slide =
  steps :: "32 word option"
  revealOpacity :: "nat list option"
  stepAttr :: "string option"

text \<open>\<open>this.steps + 1\<close>: \<open>undefined + 1\<close> is \<open>NaN\<close>.\<close>

definition steps_plus_1 :: "slide \<Rightarrow> double" where
  "steps_plus_1 s = (case steps s of None \<Rightarrow> NotANumber | Some k \<Rightarrow> Finite (of_nat (unat k) + 1))"

text \<open>
  \<open>Number(n)\<close> of an attribute value. \<open>Number(null)\<close> is \<open>0\<close>, a run of decimal digits of
  a value up to \<open>2 ^ 53\<close> is that integer, and \<open>Infinity\<close> is the infinity. What \<open>Number\<close>
  makes of any other string (a longer run of digits, which it rounds; a sign, a
  fraction, an exponent, a hexadecimal literal, white space around the number, text
  that is no number) is the language's conversion \<open>StringToNumber\<close>, a parameter of the
  model.
\<close>

definition Number_attr :: "(string \<Rightarrow> double) \<Rightarrow> string option \<Rightarrow> double" where
  "Number_attr StringToNumber n =
     (case n of
        None \<Rightarrow> Finite 0
      | Some s \<Rightarrow>
          if s \<noteq> [] \<and> list_all is_digit s \<and> decimal s \<le> 2 ^ 53 then Finite (of_nat (decimal s))
          else if s = ''Infinity'' then PlusInfinity
          else StringToNumber s)"

text \<open>
  \<open>__setStep(t)\<close>: the element at position \<open>n\<close> gets opacity \<open>1\<close> when \<open>n < t - 1\<close> and
  \<open>0\<close> otherwise; \<open>this._steps.forEach\<close> on \<open>undefined\<close> is a \<open>TypeError\<close>.
\<close>

definition setStep :: "slide \<Rightarrow> double \<Rightarrow> error + slide" where
  "setStep s t =
     (case revealOpacity s of
        None \<Rightarrow> Inl TypeError
      | Some ops \<Rightarrow>
          Inr (s\<lparr>revealOpacity :=
                   Some (map (\<lambda>n. if js_lt (Finite (of_nat n)) (js_minus_1 t) then 1 else 0)
                           [0..<length ops])\<rparr>))"

lemma less_10_cases: "(k::nat) < 10 \<Longrightarrow> k \<in> {0, 1, 2, 3, 4, 5, 6, 7, 8, 9}"
  by (simp add: numeral_eq_Suc less_Suc_eq)

lemma digit_val_digit_char: "k < 10 \<Longrightarrow> digit_val (digit_char k) = k"
  using less_10_cases [of k] by (auto simp: digit_val_def digit_char_def)

lemma is_digit_digit_char: "is_digit (digit_char k)"
  using less_10_cases [of "k mod 10"] by (auto simp: is_digit_def digit_char_def)

lemma decimal_snoc: "decimal (ds @ [c]) = 10 * decimal ds + digit_val c"
  by (simp add: decimal_def)

lemma decimal_nat_to_string: "decimal (nat_to_string n) = n"
proof (induction n rule: nat_to_string.induct)
  case (1 n)
  show ?case
  proof (cases "n < 10")
    case True
    then show ?thesis
      by (subst nat_to_string.simps) (simp add: decimal_def digit_val_digit_char)
  next
    case False
    then have "decimal (nat_to_string n) = 10 * (n div 10) + digit_val (digit_char (n mod 10))"
      using "1.IH" by (subst nat_to_string.simps) (simp add: decimal_snoc)
    then show ?thesis
      by (simp add: digit_val_digit_char)
  qed
qed

lemma digits_nat_to_string: "list_all is_digit (nat_to_string n)"
proof (induction n rule: nat_to_string.induct)
  case (1 n)
  show ?case
  proof (cases "n < 10")
    case True
    then show ?thesis
      by (subst nat_to_string.simps) (simp add: is_digit_digit_char)
  next
    case False
    then show ?thesis
      using "1.IH" by (subst nat_to_string.simps) (simp add: is_digit_digit_char)
  qed
qed

lemma nat_to_string_not_Nil: "nat_to_string n \<noteq> []"
  by (subst nat_to_string.simps) simp

text \<open>
  The text \<open>String\<close> makes of an integer up to \<open>2 ^ 53\<close> is read back by \<open>Number\<close> as that
  integer, and \<open>this.steps + 1\<close> is such an integer.
\<close>

lemma Number_attr_nat_to_string:
  "n \<le> 2 ^ 53 \<Longrightarrow> Number_attr StringToNumber (Some (nat_to_string n)) = Finite (of_nat n)"
  by (simp add: Number_attr_def nat_to_string_not_Nil digits_nat_to_string decimal_nat_to_string)

lemma steps_plus_1_bound: "unat (k :: 32 word) + 1 \<le> 2 ^ 53"
proof -
  have "unat k < 2 ^ 32"
    using unsigned_less [of k, where ?'a = nat] by simp
  also have "(2::nat) ^ 32 < 2 ^ 53"
    by simp
  finally show ?thesis
    by simp
qed

lemma Number_attr_steps_plus_1:
  "Number_attr StringToNumber (Some (nat_to_string (unat (k :: 32 word) + 1)))
   = Finite (of_nat (unat k) + 1)"
  using Number_attr_nat_to_string [OF steps_plus_1_bound [of k], of StringToNumber] by simp

text \<open>
  \<open>attributeChangedCallback(t, e, n)\<close> of \<open>SlidemSlideBase\<close>, and \<open>setAttribute("step", v)\<close>
  on a slide, which writes the attribute and runs the callback (\<open>step\<close> is the one
  observed attribute). When the number read from the new value is greater than
  \<open>this.steps + 1\<close> the callback writes \<open>this.steps + 1\<close> back through \<open>setAttribute\<close> and
  returns; otherwise it calls \<open>__setStep\<close>. The result \<open>Inl e\<close> says that a callback has
  raised \<open>e\<close>: the browser reports the exception of a callback as an uncaught error, it
  does not hand it to the caller of \<open>setAttribute\<close>.
\<close>

function attributeChangedCallback ::
    "(string \<Rightarrow> double) \<Rightarrow> slide \<Rightarrow> string \<Rightarrow> string option \<Rightarrow> string option \<Rightarrow> error + slide"
  and setAttribute_step :: "(string \<Rightarrow> double) \<Rightarrow> slide \<Rightarrow> string \<Rightarrow> error + slide" where
  "attributeChangedCallback StringToNumber s t e n =
     (if t = ''step''
      then (if js_gt (Number_attr StringToNumber n) (steps_plus_1 s)
            then setAttribute_step StringToNumber s (nat_to_string (unat (the (steps s)) + 1))
            else setStep s (Number_attr StringToNumber n))
      else Inr s)"
| "setAttribute_step StringToNumber s v =
     attributeChangedCallback StringToNumber (s\<lparr>stepAttr := Some v\<rparr>) ''step'' (stepAttr s) (Some v)"
  by pat_completeness auto
termination
proof (relation "measure (\<lambda>x. case x of
          Inl (c, s, t, e, n) \<Rightarrow> (if js_gt (Number_attr c n) (steps_plus_1 s) then 2 else 0)
        | Inr (c, s, v) \<Rightarrow> (if js_gt (Number_attr c (Some v)) (steps_plus_1 s) then 3 else 1))")
  show "wf (measure (\<lambda>x. case x of
          Inl (c, s, t, e, n) \<Rightarrow> (if js_gt (Number_attr c n) (steps_plus_1 s) then 2 else 0)
        | Inr (c, s, v) \<Rightarrow> (if js_gt (Number_attr c (Some v)) (steps_plus_1 s) then 3 else 1)))"
    by simp
next
  fix c :: "string \<Rightarrow> double" and s :: slide and t :: string and e n :: "string option"
  assume "t = ''step''" and gt: "js_gt (Number_attr c n) (steps_plus_1 s)"
  from gt obtain k where k: "steps s = Some k"
    by (cases "steps s") (auto simp: steps_plus_1_def elim: js_gt.elims)
  have "\<not> js_gt (Number_attr c (Some (nat_to_string (unat (the (steps s)) + 1)))) (steps_plus_1 s)"
    using k Number_attr_steps_plus_1 [of c k] by (simp add: steps_plus_1_def)
  with gt show "(Inr (c, s, nat_to_string (unat (the (steps s)) + 1)), Inl (c, s, t, e, n))
      \<in> measure (\<lambda>x. case x of
          Inl (c, s, t, e, n) \<Rightarrow> (if js_gt (Number_attr c n) (steps_plus_1 s) then 2 else 0)
        | Inr (c, s, v) \<Rightarrow> (if js_gt (Number_attr c (Some v)) (steps_plus_1 s) then 3 else 1))"
    by simp
next
  fix c :: "string \<Rightarrow> double" and s :: slide and v :: string
  show "(Inl (c, s\<lparr>stepAttr := Some v\<rparr>, ''step'', stepAttr s, Some v), Inr (c, s, v))
      \<in> measure (\<lambda>x. case x of
          Inl (c, s, t, e, n) \<Rightarrow> (if js_gt (Number_attr c n) (steps_plus_1 s) then 2 else 0)
        | Inr (c, s, v) \<Rightarrow> (if js_gt (Number_attr c (Some v)) (steps_plus_1 s) then 3 else 1))"
    by (simp add: steps_plus_1_def)
qed

declare attributeChangedCallback.simps [simp del] setAttribute_step.simps [simp del]

section \<open>Values\<close>

text \<open>
  The values a template expression can have. Objects are known by identity
  (\<open>ref\<close>, \<open>node\<close>). An array and another iterable object carry their items in iteration
  order; an iterable that is not an array and an object with no protocol the code
  looks for carry the string \<open>String(v)\<close> yields. \<open>TemplateResult t vs\<close> is
  \<open>new TemplateResult(t, vs)\<close> with the \<open>Template\<close> object \<open>t\<close>. \<open>Directive v\<close> is a function
  tagged \<open>__litDirective\<close> that returns \<open>v\<close> when it is called with the part; what else
  a directive does is not part of the model. Symbols and fractions are outside the
  model.
\<close>

type_synonym ref = nat
type_synonym node = nat

datatype jsval =
    Undefined
  | Null
  | Boolean bool
  | Number number
  | Str string
  | Array "jsval list"
  | Iterable string "jsval list"
  | Object string
  | TemplateResult ref "jsval list"
  | Node node
  | Thenable ref
  | Directive jsval

fun join :: "string \<Rightarrow> string list \<Rightarrow> string" where
  "join sep [] = []"
| "join sep [x] = x"
| "join sep (x # y # ys) = x @ sep @ join sep (y # ys)"

text \<open>
  \<open>String(v)\<close>, the conversion \<open>text += v\<close> and \<open>new Text(v)\<close> apply. An array is its
  items joined by commas, \<open>null\<close> and \<open>undefined\<close> items giving the empty string. For a
  DOM node, a promise and a function the string depends on the interface name or the
  source text, which the model does not keep: it writes one fixed string for each.
\<close>

fun toString :: "jsval \<Rightarrow> string" where
  "toString Undefined = ''undefined''"
| "toString Null = ''null''"
| "toString (Boolean b) = (if b then ''true'' else ''false'')"
| "toString (Number (Num i)) = int_to_string i"
| "toString (Number PosInfinity) = ''Infinity''"
| "toString (Number NaN) = ''NaN''"
| "toString (Str s) = s"
| "toString (Array xs) =
     join '','' (map (\<lambda>x. if x = Undefined \<or> x = Null then [] else toString x) xs)"
| "toString (Iterable s xs) = s"
| "toString (Object s) = s"
| "toString (TemplateResult t vs) = ''[object Object]''"
| "toString (Node n) = ''[object Node]''"
| "toString (Thenable r) = ''[object Promise]''"
| "toString (Directive v) = ''function''"

fun truthy :: "jsval \<Rightarrow> bool" where
  "truthy Undefined = False"
| "truthy Null = False"
| "truthy (Boolean b) = b"
| "truthy (Number (Num i)) = (i \<noteq> 0)"
| "truthy (Number PosInfinity) = True"
| "truthy (Number NaN) = False"
| "truthy (Str s) = (s \<noteq> [])"
| "truthy v = True"

text \<open>\<open>Array.isArray(v) || typeof v !== 'string' && v[Symbol.iterator]\<close>, and the items.\<close>

fun is_iterable :: "jsval \<Rightarrow> bool" where
  "is_iterable (Array xs) = True"
| "is_iterable (Iterable s xs) = True"
| "is_iterable v = False"

fun items :: "jsval \<Rightarrow> jsval list" where
  "items (Array xs) = xs"
| "items (Iterable s xs) = xs"
| "items v = []"

text \<open>\<open>value === null || !(typeof value === 'object' || typeof value === 'function')\<close>.\<close>

fun is_primitive :: "jsval \<Rightarrow> bool" where
  "is_primitive Undefined = True"
| "is_primitive Null = True"
| "is_primitive (Boolean b) = True"
| "is_primitive (Number n) = True"
| "is_primitive (Str s) = True"
| "is_primitive v = False"

text \<open>\<open>vs[i]\<close>: an index past the end reads \<open>undefined\<close>.\<close>

definition js_index :: "jsval list \<Rightarrow> nat \<Rightarrow> jsval" where
  "js_index vs i = (if i < length vs then vs ! i else Undefined)"

text \<open>
  \<open>getValue(part, value)\<close>: a directive is called with the part and its result taken;
  \<open>null\<close> becomes \<open>undefined\<close>.
\<close>

definition getValue :: "jsval \<Rightarrow> jsval" where
  "getValue v0 =
     (let v = (case v0 of Directive r \<Rightarrow> r | _ \<Rightarrow> v0)
      in if v = Null then Undefined else v)"

section \<open>The DOM\<close>

text \<open>
  The live DOM as a store: a node is known by its identity, and the store holds for
  each node its type, name, character data, attributes, children in order and parent.
  \<open>nextNode\<close> is the identity the next node created gets.
\<close>

datatype node_type = ELEMENT_NODE | TEXT_NODE | COMMENT_NODE | DOCUMENT_FRAGMENT_NODE

record dom =
  nodeType :: "node \<Rightarrow> node_type"
  nodeName :: "node \<Rightarrow> string"
  nodeValue :: "node \<Rightarrow> string"
  attributes :: "node \<Rightarrow> (string \<times> string) list"
  childNodes :: "node \<Rightarrow> node list"
  parentNode :: "node \<Rightarrow> node option"
  nextNode :: node

fun after :: "'a \<Rightarrow> 'a list \<Rightarrow> 'a option" where
  "after n [] = None"
| "after n [x] = None"
| "after n (x # y # ys) = (if x = n then Some y else after n (y # ys))"

fun before :: "'a \<Rightarrow> 'a list \<Rightarrow> 'a option" where
  "before n [] = None"
| "before n [x] = None"
| "before n (x # y # ys) = (if x = n then None else if y = n then Some x else before n (y # ys))"

definition nextSibling :: "dom \<Rightarrow> node \<Rightarrow> node option" where
  "nextSibling d n = (case parentNode d n of None \<Rightarrow> None | Some p \<Rightarrow> after n (childNodes d p))"

definition previousSibling :: "dom \<Rightarrow> node \<Rightarrow> node option" where
  "previousSibling d n = (case parentNode d n of None \<Rightarrow> None | Some p \<Rightarrow> before n (childNodes d p))"


text \<open>
  \<open>element.setAttribute(name, value)\<close>: an attribute the element has keeps its place
  and takes the value, a new one is added last. The names the code passes come from
  the parser, lower case already.
\<close>

fun set_attr :: "string \<Rightarrow> string \<Rightarrow> (string \<times> string) list \<Rightarrow> (string \<times> string) list" where
  "set_attr k v [] = [(k, v)]"
| "set_attr k v ((k', v') # al) = (if k' = k then (k, v) # al else (k', v') # set_attr k v al)"

definition setAttribute :: "dom \<Rightarrow> node \<Rightarrow> string \<Rightarrow> string \<Rightarrow> dom" where
  "setAttribute d element k v = d\<lparr>attributes := (attributes d)(element := set_attr k v (attributes d element))\<rparr>"

definition getAttribute :: "dom \<Rightarrow> node \<Rightarrow> string \<Rightarrow> string option" where
  "getAttribute d element k = map_of (attributes d element) k"

text \<open>
  \<open>parent.removeChild(child)\<close>: a \<open>NotFoundError\<close> unless \<open>parent\<close> is the parent of
  \<open>child\<close>.
\<close>

definition removeChild :: "dom \<Rightarrow> node \<Rightarrow> node \<Rightarrow> error + dom" where
  "removeChild d parent child =
     (if parentNode d child = Some parent
      then Inr (d\<lparr>childNodes := (childNodes d)(parent := remove1 child (childNodes d parent)),
                  parentNode := (parentNode d)(child := None)\<rparr>)
      else Inl NotFoundError)"

text \<open>
  Whether \<open>a\<close> is \<open>n\<close> or an ancestor of \<open>n\<close>. The walk up the parents is bounded by the
  number of nodes created, which no chain of parents exceeds.
\<close>

fun inclusive_ancestor_within :: "nat \<Rightarrow> dom \<Rightarrow> node \<Rightarrow> node \<Rightarrow> bool" where
  "inclusive_ancestor_within 0 d a n = (a = n)"
| "inclusive_ancestor_within (Suc k) d a n =
     (a = n \<or> (case parentNode d n of None \<Rightarrow> False | Some p \<Rightarrow> inclusive_ancestor_within k d a p))"

definition inclusive_ancestor :: "dom \<Rightarrow> node \<Rightarrow> node \<Rightarrow> bool" where
  "inclusive_ancestor d a n = inclusive_ancestor_within (nextNode d) d a n"

definition insert_nodes :: "node list \<Rightarrow> node option \<Rightarrow> node list \<Rightarrow> node list" where
  "insert_nodes new child l =
     (case child of
        None \<Rightarrow> l @ new
      | Some c \<Rightarrow> takeWhile (\<lambda>x. x \<noteq> c) l @ new @ dropWhile (\<lambda>x. x \<noteq> c) l)"

text \<open>
  \<open>parent.insertBefore(node, child)\<close>, and \<open>parent.appendChild(node)\<close> as the insertion
  before \<open>null\<close>. The DOM refuses a parent that cannot have children, a node that is
  the parent or one of its ancestors (\<open>HierarchyRequestError\<close>) and a \<open>child\<close> that is not
  a child of the parent (\<open>NotFoundError\<close>). A document fragment gives its children and
  is left empty; any other node is taken out of its old parent first. When \<open>child\<close> is
  the node itself, the place is before the node's next sibling.
\<close>

definition insertBefore :: "dom \<Rightarrow> node \<Rightarrow> node \<Rightarrow> node option \<Rightarrow> error + dom" where
  "insertBefore d parent new child =
     (if nodeType d parent \<noteq> ELEMENT_NODE \<and> nodeType d parent \<noteq> DOCUMENT_FRAGMENT_NODE
      then Inl HierarchyRequestError
      else if inclusive_ancestor d new parent then Inl HierarchyRequestError
      else if child \<noteq> None \<and> parentNode d (the child) \<noteq> Some parent then Inl NotFoundError
      else
        (let child' = (if child = Some new then nextSibling d new else child);
             moved = (if nodeType d new = DOCUMENT_FRAGMENT_NODE then childNodes d new else [new]);
             cn1 = (if nodeType d new = DOCUMENT_FRAGMENT_NODE then (childNodes d)(new := [])
                    else (case parentNode d new of
                            None \<Rightarrow> childNodes d
                          | Some q \<Rightarrow> (childNodes d)(q := remove1 new (childNodes d q))));
             cn2 = cn1(parent := insert_nodes moved child' (cn1 parent))
         in Inr (d\<lparr>childNodes := cn2,
                   parentNode := (\<lambda>n. if n \<in> set moved then Some parent else parentNode d n)\<rparr>)))"


text \<open>\<open>new Text(data)\<close>: a text node with no parent; the result is the store and the node.\<close>

definition new_Text :: "dom \<Rightarrow> string \<Rightarrow> dom \<times> node" where
  "new_Text d data =
     (let n = nextNode d
      in (d\<lparr>nodeType := (nodeType d)(n := TEXT_NODE),
            nodeName := (nodeName d)(n := ''#text''),
            nodeValue := (nodeValue d)(n := data),
            attributes := (attributes d)(n := []),
            childNodes := (childNodes d)(n := []),
            parentNode := (parentNode d)(n := None),
            nextNode := Suc n\<rparr>, n))"

text \<open>
  The data \<open>new Text(value)\<close> and \<open>node.textContent = value\<close> give a text node:
  \<open>undefined\<close> is the constructor's default, the empty string, and is the empty string
  for \<open>textContent\<close> too, as \<open>null\<close> is; every other value is converted to a string.
\<close>

definition Text_data :: "jsval \<Rightarrow> string" where
  "Text_data v = (if v = Undefined then [] else toString v)"

definition textContent_data :: "jsval \<Rightarrow> string" where
  "textContent_data v = (if v = Undefined \<or> v = Null then [] else toString v)"

definition set_textContent :: "dom \<Rightarrow> node \<Rightarrow> jsval \<Rightarrow> dom" where
  "set_textContent d n v = d\<lparr>nodeValue := (nodeValue d)(n := textContent_data v)\<rparr>"

section \<open>Attribute parts\<close>

text \<open>
  An \<open>AttributePart\<close>: the element, the attribute's name and the literal strings around
  the expressions of the attribute. Its \<open>size\<close> is the number of expressions.
\<close>

record attributePart =
  element :: node
  name :: string
  strings :: "string list"

definition size_ap :: "attributePart \<Rightarrow> nat" where
  "size_ap p = length (strings p) - 1"

text \<open>
  The loop of \<open>AttributePart.setValue(values, startIndex)\<close>, from index \<open>i\<close> with the
  text built so far: each string is appended, and after each string but the last the
  value of the expression: item by item when it is truthy and an array or another
  iterable object, as a whole otherwise.
\<close>

function setValue_loop :: "string list \<Rightarrow> jsval list \<Rightarrow> nat \<Rightarrow> nat \<Rightarrow> string \<Rightarrow> string" where
  "setValue_loop strs vs startIndex i text0 =
     (if i < length strs
      then (let text1 = text0 @ strs ! i;
                text2 =
                  (if i < length strs - 1
                   then (let v = getValue (js_index vs (startIndex + i))
                         in if truthy v \<and> is_iterable v
                            then foldl (\<lambda>t item. t @ toString item) text1 (items v)
                            else text1 @ toString v)
                   else text1)
            in setValue_loop strs vs startIndex (Suc i) text2)
      else text0)"
  by pat_completeness auto
termination
  by (relation "measure (\<lambda>(strs, vs, startIndex, i, text0). length strs - i)") auto

declare setValue_loop.simps [simp del]

definition AttributePart_setValue :: "dom \<Rightarrow> attributePart \<Rightarrow> jsval list \<Rightarrow> nat \<Rightarrow> dom" where
  "AttributePart_setValue d this vs startIndex =
     setAttribute d (element this) (name this) (setValue_loop (strings this) vs startIndex 0 [])"

section \<open>Compiling a template\<close>

text \<open>
  The content of a \<open>template\<close> element as a tree. A \<open>Template\<close> keeps its content to
  itself: no node of it is handed out, instances work on copies made by \<open>importNode\<close>.
  So the model keeps the content as a value without node identities.
\<close>

datatype hnode =
    HElement string "(string \<times> string) list" "hnode list"
  | HText string
  | HComment string

text \<open>
  \<open>s.split(sep)\<close> for a separator that is not empty (as \<open>exprMarker\<close> is): \<open>cur\<close> holds,
  reversed, the characters read since the last separator.
\<close>

fun split_from :: "string \<Rightarrow> string \<Rightarrow> string \<Rightarrow> string list" where
  "split_from sep cur [] = [rev cur]"
| "split_from sep cur (c # cs) =
     (if sep \<noteq> [] \<and> prefix sep (c # cs)
      then rev cur # split_from sep [] (drop (length sep - 1) cs)
      else split_from sep (c # cur) cs)"

definition split :: "string \<Rightarrow> string \<Rightarrow> string list" where
  "split s sep = split_from sep [] s"

text \<open>White space as \<open>trim\<close> sees it, within ASCII.\<close>

definition is_space :: "char \<Rightarrow> bool" where
  "is_space c = (c \<in> {CHR '' '', CHR 0x09, CHR 0x0A, CHR 0x0B, CHR 0x0C, CHR 0x0D})"

text \<open>
  \<open>rawNameString.match(/((?:\w|[.\-_$])+)=["']?$/)\<close>: the string has to end in name
  characters, then \<open>=\<close>, then at most one quote; group 1 is the longest run of name
  characters before the \<open>=\<close>. \<open>None\<close> is \<open>null\<close>, no match.
\<close>

definition is_name_char :: "char \<Rightarrow> bool" where
  "is_name_char c =
     (c \<in> set ''abcdefghijklmnopqrstuvwxyzABCDEFGHIJKLMNOPQRSTUVWXYZ0123456789_.-$'')"

definition rawName_match :: "string \<Rightarrow> string option" where
  "rawName_match s =
     (let r = rev s;
          r1 = (if r \<noteq> [] \<and> (hd r = CHR 0x22 \<or> hd r = CHR 0x27) then tl r else r)
      in if r1 \<noteq> [] \<and> hd r1 = CHR ''='' \<and> takeWhile is_name_char (tl r1) \<noteq> []
         then Some (rev (takeWhile is_name_char (tl r1)))
         else None)"

text \<open>
  A \<open>TemplatePart\<close>: its type (\<open>attribute\<close> or \<open>node\<close>), the index of its node in the
  walk, and for an attribute part the name, the raw name and the literal strings
  (\<open>undefined\<close>, here \<open>None\<close>, for a node part).
\<close>

record templatePart =
  tp_type :: string
  tp_index :: int
  tp_name :: "string option"
  tp_rawName :: "string option"
  tp_strings :: "string list option"

definition node_TemplatePart :: "int \<Rightarrow> templatePart" where
  "node_TemplatePart i =
     \<lparr>tp_type = ''node'', tp_index = i, tp_name = None, tp_rawName = None, tp_strings = None\<rparr>"

record Template =
  parts :: "templatePart list"
  content :: "hnode list"

text \<open>
  The loop over the attributes of an element, with \<open>partIndex\<close> and the parts so far. An
  attribute whose value holds the marker becomes a part and is removed from the
  element: the attributes of an element have distinct names, so \<open>removeAttribute\<close> takes
  out the attribute at hand, and the loop goes on with the one after it. The strings
  of the literal are \<open>strs\<close>; \<open>strings[partIndex]\<close> past the end is \<open>undefined\<close>, whose
  \<open>length\<close> is a \<open>TypeError\<close>, as is group 1 of a failed match.
\<close>

fun attributes_loop ::
  "string \<Rightarrow> string list \<Rightarrow> int \<Rightarrow> (string \<times> string) list \<Rightarrow> nat \<times> templatePart list
   \<Rightarrow> error + ((string \<times> string) list \<times> nat \<times> templatePart list)" where
  "attributes_loop exprMarker strs idx [] (partIndex, ps) = Inr ([], partIndex, ps)"
| "attributes_loop exprMarker strs idx ((attr_name, attr_value) # rest) (partIndex, ps) =
     (let attributeStrings = split attr_value exprMarker in
      if length attributeStrings > 1
      then (if partIndex < length strs
            then (let attributeString = strs ! partIndex;
                      rawNameString =
                        take (length attributeString - length (hd attributeStrings)) attributeString
                  in case rawName_match rawNameString of
                       None \<Rightarrow> Inl TypeError
                     | Some rawName \<Rightarrow>
                         attributes_loop exprMarker strs idx rest
                           (partIndex + (length attributeStrings - 1),
                            ps @ [\<lparr>tp_type = ''attribute'', tp_index = idx,
                                    tp_name = Some attr_name, tp_rawName = Some rawName,
                                    tp_strings = Some attributeStrings\<rparr>]))
            else Inl TypeError)
      else (case attributes_loop exprMarker strs idx rest (partIndex, ps) of
              Inl e \<Rightarrow> Inl e
            | Inr (rest', partIndex', ps') \<Rightarrow> Inr ((attr_name, attr_value) # rest', partIndex', ps')))"

text \<open>
  The walk of the constructor over elements and text nodes in document order (comments
  are not shown to the walker), with the state \<open>(index, partIndex, parts)\<close>. It returns
  the state and what the node has become: a text node with \<open>n\<close> markers becomes
  \<open>n + 1\<close> text nodes, one per literal string, the first \<open>n\<close> being the markers of node
  parts; a text node of white space only is removed (after the walk, in the source) and
  not counted; an element loses the attributes that became parts.
\<close>

fun walk_node ::
  "string \<Rightarrow> string list \<Rightarrow> int \<times> nat \<times> templatePart list \<Rightarrow> hnode
   \<Rightarrow> error + ((int \<times> nat \<times> templatePart list) \<times> hnode list)"
  and walk_nodes ::
  "string \<Rightarrow> string list \<Rightarrow> int \<times> nat \<times> templatePart list \<Rightarrow> hnode list
   \<Rightarrow> error + ((int \<times> nat \<times> templatePart list) \<times> hnode list)" where
  "walk_node exprMarker strs (idx, partIndex, ps) (HComment c) =
     Inr ((idx, partIndex, ps), [HComment c])"
| "walk_node exprMarker strs (idx, partIndex, ps) (HText s) =
     (let idx1 = idx + 1; ss = split s exprMarker in
      if length ss > 1
      then (let lastIndex = length ss - 1
            in Inr ((idx1 + int lastIndex, partIndex + lastIndex,
                     ps @ map (\<lambda>i. node_TemplatePart (idx1 + int i)) [0..<lastIndex]),
                    map HText ss))
      else if list_all is_space s then Inr ((idx1 - 1, partIndex, ps), [])
      else Inr ((idx1, partIndex, ps), [HText s]))"
| "walk_node exprMarker strs (idx, partIndex, ps) (HElement tag attrs kids) =
     (let idx1 = idx + 1 in
      case (if attrs = [] then Inr (attrs, partIndex, ps)
            else attributes_loop exprMarker strs idx1 attrs (partIndex, ps)) of
        Inl e \<Rightarrow> Inl e
      | Inr (attrs', partIndex', ps') \<Rightarrow>
          (case walk_nodes exprMarker strs (idx1, partIndex', ps') kids of
             Inl e \<Rightarrow> Inl e
           | Inr (st, kids') \<Rightarrow> Inr (st, [HElement tag attrs' kids'])))"
| "walk_nodes exprMarker strs st [] = Inr (st, [])"
| "walk_nodes exprMarker strs st (n # ns) =
     (case walk_node exprMarker strs st n of
        Inl e \<Rightarrow> Inl e
      | Inr (st1, out1) \<Rightarrow>
          (case walk_nodes exprMarker strs st1 ns of
             Inl e \<Rightarrow> Inl e
           | Inr (st2, out2) \<Rightarrow> Inr (st2, out1 @ out2)))"

text \<open>
  \<open>new Template(strings)\<close>. The browser's HTML parser (\<open>element.innerHTML = ...\<close>) and
  the marker, a random string fixed when the module is loaded, are parameters.
\<close>

definition new_Template :: "(string \<Rightarrow> hnode list) \<Rightarrow> string \<Rightarrow> string list \<Rightarrow> error + Template" where
  "new_Template parseHTML exprMarker strs =
     (case walk_nodes exprMarker strs (- 1, 0, []) (parseHTML (join exprMarker strs)) of
        Inl e \<Rightarrow> Inl e
      | Inr ((idx, partIndex, ps), nodes) \<Rightarrow> Inr \<lparr>parts = ps, content = nodes\<rparr>)"

text \<open>
  The tag \<open>html\<close>. \<open>templates\<close> is the \<open>Map\<close> from the strings array of a literal, an
  object known by identity, to its \<open>Template\<close> object; \<open>templateObjects\<close> is the heap of
  the \<open>Template\<close> objects made so far and \<open>nextRef\<close> the identity of the next one. The
  argument \<open>strings_array\<close> is the array \<open>strings\<close>: its identity and its (frozen) contents. The result is
  \<open>new TemplateResult(template, values)\<close>.
\<close>

record templateCache =
  templates :: "ref \<Rightarrow> ref option"
  templateObjects :: "ref \<Rightarrow> Template option"
  nextRef :: ref

definition html ::
  "(string \<Rightarrow> hnode list) \<Rightarrow> string \<Rightarrow> templateCache \<Rightarrow> ref \<times> string list \<Rightarrow> jsval list
   \<Rightarrow> error + (templateCache \<times> jsval)" where
  "html parseHTML exprMarker st strings_array vs =
     (case templates st (fst strings_array) of
        Some t \<Rightarrow> Inr (st, TemplateResult t vs)
      | None \<Rightarrow>
          (case new_Template parseHTML exprMarker (snd strings_array) of
             Inl e \<Rightarrow> Inl e
           | Inr tpl \<Rightarrow>
               (let t = nextRef st
                in Inr (st\<lparr>templates := (templates st)(fst strings_array := Some t),
                          templateObjects := (templateObjects st)(t := Some tpl),
                          nextRef := Suc t\<rparr>,
                        TemplateResult t vs))))"

section \<open>Node parts and template instances\<close>

text \<open>
  The parts of a \<open>TemplateInstance\<close> belong to it alone and the item parts of a
  \<open>NodePart\<close> to that part, so the objects form a tree and the model keeps them as
  values, returned updated. A \<open>NodePart\<close> has the \<open>_partCallback\<close> of its instance (all
  the code reads of \<open>this.instance\<close>), its two marker nodes and \<open>_previousValue\<close>:
  \<^item> \<open>PValue v\<close>: a value kept as it is (\<open>undefined\<close> at first, a primitive, a DOM node,
    a thenable, another object);
  \<^item> \<open>PInstance t cb ps\<close>: a \<open>TemplateInstance\<close> with its \<open>template\<close>, \<open>_partCallback\<close> and
    \<open>_parts\<close>;
  \<^item> \<open>PItems ps\<close>: the array of the item parts of an iterable.
  \<open>endNode\<close> is \<open>None\<close> when the part was made on a node with no next sibling.
\<close>

datatype nodePart =
  NodePart (callback: ref) (startNode: node) (endNode: "node option") (previousValue: prev)
and prev =
    PValue jsval
  | PInstance ref ref "part list"
  | PItems "nodePart list"
and part =
    AP attributePart
  | NP nodePart


text \<open>
  What the rendering code reads of its surroundings: the heap of the \<open>Template\<close>
  objects, and the part callbacks other than \<open>defaultPartCallback\<close>, each a function of
  the DOM, the callback's own identity (for the parts it makes), the \<open>TemplatePart\<close> and
  the node. \<open>defaultPartCallback\<close> has the identity \<open>0\<close>.
\<close>

record env =
  templateOf :: "ref \<Rightarrow> Template option"
  callbackOf :: "ref \<Rightarrow> dom \<Rightarrow> ref \<Rightarrow> templatePart \<Rightarrow> node \<Rightarrow> error + part"

definition defaultPartCallback :: "dom \<Rightarrow> ref \<Rightarrow> templatePart \<Rightarrow> node \<Rightarrow> error + part" where
  "defaultPartCallback d cb templatePart n =
     (if tp_type templatePart = ''attribute''
      then (case tp_strings templatePart of
              None \<Rightarrow> Inl TypeError
            | Some ss \<Rightarrow>
                Inr (AP \<lparr>element = n,
                         name = (case tp_name templatePart of None \<Rightarrow> ''undefined'' | Some k \<Rightarrow> k),
                         strings = ss\<rparr>))
      else if tp_type templatePart = ''node''
      then Inr (NP (NodePart cb n (nextSibling d n) (PValue Undefined)))
      else Inl (Error (''Unknown part type '' @ tp_type templatePart)))"

definition call_partCallback :: "env \<Rightarrow> ref \<Rightarrow> dom \<Rightarrow> templatePart \<Rightarrow> node \<Rightarrow> error + part" where
  "call_partCallback en cb d templatePart n =
     (if cb = 0 then defaultPartCallback d cb templatePart n else callbackOf en cb d cb templatePart n)"

text \<open>
  \<open>document.importNode(content, true)\<close>: a copy of the content under a new document
  fragment, nodes created in document order. With the copy comes the list of its
  elements and text nodes in document order, which is what the \<open>TreeWalker\<close> of
  \<open>_clone\<close> (\<open>whatToShow = 5\<close>) steps through.
\<close>

definition new_node :: "dom \<Rightarrow> node_type \<Rightarrow> string \<Rightarrow> string \<Rightarrow> (string \<times> string) list \<Rightarrow> node option \<Rightarrow> dom \<times> node" where
  "new_node d ty nm data attrs parent =
     (let n = nextNode d
      in (d\<lparr>nodeType := (nodeType d)(n := ty),
            nodeName := (nodeName d)(n := nm),
            nodeValue := (nodeValue d)(n := data),
            attributes := (attributes d)(n := attrs),
            childNodes := (childNodes d)(n := []),
            parentNode := (parentNode d)(n := parent),
            nextNode := Suc n\<rparr>, n))"

fun import_node :: "dom \<Rightarrow> node \<Rightarrow> hnode \<Rightarrow> dom \<times> node \<times> node list"
  and import_nodes :: "dom \<Rightarrow> node \<Rightarrow> hnode list \<Rightarrow> dom \<times> node list \<times> node list" where
  "import_node d parent (HText s) =
     (let (d1, n) = new_node d TEXT_NODE ''#text'' s [] (Some parent) in (d1, n, [n]))"
| "import_node d parent (HComment s) =
     (let (d1, n) = new_node d COMMENT_NODE ''#comment'' s [] (Some parent) in (d1, n, []))"
| "import_node d parent (HElement tag attrs kids) =
     (let (d1, n) = new_node d ELEMENT_NODE tag [] attrs (Some parent);
          (d2, ks, shown) = import_nodes d1 n kids
      in (d2\<lparr>childNodes := (childNodes d2)(n := ks)\<rparr>, n, n # shown))"
| "import_nodes d parent [] = (d, [], [])"
| "import_nodes d parent (h # hs) =
     (let (d1, n, shown1) = import_node d parent h;
          (d2, ns, shown2) = import_nodes d1 parent hs
      in (d2, n # ns, shown1 @ shown2))"

definition importNode :: "dom \<Rightarrow> hnode list \<Rightarrow> dom \<times> node \<times> node list" where
  "importNode d c =
     (let (d1, fragment) = new_node d DOCUMENT_FRAGMENT_NODE ''#document-fragment'' [] [] None;
          (d2, ks, shown) = import_nodes d1 fragment c
      in (d2\<lparr>childNodes := (childNodes d2)(fragment := ks)\<rparr>, fragment, shown))"

text \<open>
  The loop of \<open>TemplateInstance._clone\<close>: \<open>walk\<close> is the walker's current node followed
  by the nodes it has still to show (empty when \<open>node\<close> is \<open>null\<close>), \<open>ps\<close> the template
  parts from \<open>partIndex\<close> on.
\<close>

fun clone_loop ::
  "(dom \<Rightarrow> templatePart \<Rightarrow> node \<Rightarrow> error + part) \<Rightarrow> dom \<Rightarrow> int \<Rightarrow> node list \<Rightarrow> templatePart list
   \<Rightarrow> error + part list" where
  "clone_loop cb d idx [] ps = Inr []"
| "clone_loop cb d idx (n # ns) [] = Inr []"
| "clone_loop cb d idx (n # ns) (templatePart # ps) =
     (if idx = tp_index templatePart
      then (case cb d templatePart n of
              Inl e \<Rightarrow> Inl e
            | Inr p \<Rightarrow>
                (case clone_loop cb d idx (n # ns) ps of
                   Inl e \<Rightarrow> Inl e
                 | Inr ps' \<Rightarrow> Inr (p # ps')))
      else clone_loop cb d (idx + 1) ns (templatePart # ps))"

text \<open>
  \<open>new TemplateInstance(t, cb)._clone()\<close>: the store with the copy, the fragment and the
  parts of the instance. A \<open>Template\<close> object that is not on the heap cannot be reached
  by the code; the model answers \<open>TypeError\<close> for it.
\<close>

definition clone :: "env \<Rightarrow> dom \<Rightarrow> ref \<Rightarrow> ref \<Rightarrow> error + (dom \<times> node \<times> part list)" where
  "clone en d t cb =
     (case templateOf en t of
        None \<Rightarrow> Inl TypeError
      | Some tpl \<Rightarrow>
          (let (d1, fragment, shown) = importNode d (content tpl) in
           if length (parts tpl) > 0
           then (case clone_loop (call_partCallback en cb) d1 0 shown (parts tpl) of
                   Inl e \<Rightarrow> Inl e
                 | Inr ps \<Rightarrow> Inr (d1, fragment, ps))
           else Inr (d1, fragment, [])))"

lemma after_in_set: "after s l = Some n \<Longrightarrow> n \<in> set l"
  by (induction s l rule: after.induct) (auto split: if_splits)

text \<open>
  \<open>NodePart.clear(startNode)\<close>: while the next sibling of \<open>startNode\<close> is not \<open>endNode\<close>,
  remove it from its parent. When the siblings run out before \<open>endNode\<close> is met, the
  next sibling is \<open>null\<close> and \<open>node.parentNode\<close> a \<open>TypeError\<close>.
\<close>

function clear :: "dom \<Rightarrow> node \<Rightarrow> node option \<Rightarrow> error + dom" where
  "clear d start end_node =
     (if nextSibling d start = end_node then Inr d
      else (case nextSibling d start of
              None \<Rightarrow> Inl TypeError
            | Some n \<Rightarrow>
                (case parentNode d n of
                   None \<Rightarrow> Inl TypeError
                 | Some p \<Rightarrow>
                     (case removeChild d p n of
                        Inl e \<Rightarrow> Inl e
                      | Inr d' \<Rightarrow> clear d' start end_node))))"
  by pat_completeness auto
termination
proof (relation "measure (\<lambda>(d, start, end_node).
          case parentNode d start of
            None \<Rightarrow> 0
          | Some p \<Rightarrow> 2 * length (childNodes d p) + 1
              + (case after start (childNodes d p) of
                   None \<Rightarrow> 0
                 | Some n \<Rightarrow> (if parentNode d n = None then 0 else 1)))")
  show "wf (measure (\<lambda>(d, start, end_node).
          case parentNode d start of
            None \<Rightarrow> 0
          | Some p \<Rightarrow> 2 * length (childNodes d p) + 1
              + (case after start (childNodes d p) of
                   None \<Rightarrow> 0
                 | Some n \<Rightarrow> (if parentNode d n = None then 0 else 1))))"
    by simp
next
  fix d :: dom and start :: node and end_node :: "node option" and n p :: node and d' :: dom
  assume ns: "nextSibling d start = Some n" and pn: "parentNode d n = Some p"
    and rc: "removeChild d p n = Inr d'"
  from ns obtain p0 where p0: "parentNode d start = Some p0"
    and af: "after start (childNodes d p0) = Some n"
    by (auto simp: nextSibling_def split: option.splits)
  from af have mem: "n \<in> set (childNodes d p0)" by (rule after_in_set)
  from rc pn have d': "d' = d\<lparr>childNodes := (childNodes d)(p := remove1 n (childNodes d p)),
                  parentNode := (parentNode d)(n := None)\<rparr>"
    by (simp add: removeChild_def)
  have "(case parentNode d' start of
            None \<Rightarrow> 0
          | Some q \<Rightarrow> 2 * length (childNodes d' q) + 1
              + (case after start (childNodes d' q) of
                   None \<Rightarrow> 0
                 | Some m \<Rightarrow> (if parentNode d' m = None then 0 else 1)))
        < 2 * length (childNodes d p0) + 1 + 1"
  proof (cases "n = start")
    case True
    then show ?thesis by (simp add: d')
  next
    case False
    show ?thesis
    proof (cases "p = p0")
      case True
      have "length (remove1 n (childNodes d p0)) < length (childNodes d p0)"
        using mem length_pos_if_in_set [of n "childNodes d p0"] by (simp add: length_remove1)
      then show ?thesis
        using False True p0 by (simp add: d' split: option.splits)
    next
      case pne: False
      then show ?thesis
        using False p0 af by (simp add: d')
    qed
  qed
  then show "((d', start, end_node), (d, start, end_node)) \<in> measure (\<lambda>(d, start, end_node).
          case parentNode d start of
            None \<Rightarrow> 0
          | Some p \<Rightarrow> 2 * length (childNodes d p) + 1
              + (case after start (childNodes d p) of
                   None \<Rightarrow> 0
                 | Some n \<Rightarrow> (if parentNode d n = None then 0 else 1)))"
    using p0 af pn by simp
qed

declare clear.simps [simp del]

text \<open>\<open>this._insert(node)\<close>: \<open>this.endNode.parentNode.insertBefore(node, this.endNode)\<close>.\<close>

definition insert_before_end :: "dom \<Rightarrow> node option \<Rightarrow> node \<Rightarrow> error + dom" where
  "insert_before_end d end_node n =
     (case end_node of
        None \<Rightarrow> Inl TypeError
      | Some e \<Rightarrow>
          (case parentNode d e of
             None \<Rightarrow> Inl TypeError
           | Some p \<Rightarrow> insertBefore d p n (Some e)))"

text \<open>\<open>_setNode(value)\<close>: clear the part, insert the node, keep it as the previous value.\<close>

definition setNode :: "dom \<Rightarrow> nodePart \<Rightarrow> node \<Rightarrow> error + (dom \<times> nodePart)" where
  "setNode d this n =
     (case clear d (startNode this) (endNode this) of
        Inl e \<Rightarrow> Inl e
      | Inr d1 \<Rightarrow>
          (case insert_before_end d1 (endNode this) n of
             Inl e \<Rightarrow> Inl e
           | Inr d2 \<Rightarrow>
               Inr (d2, NodePart (callback this) (startNode this) (endNode this) (PValue (Node n)))))"

text \<open>
  \<open>_setText(value)\<close>: when one node stands between the markers and it is a text node,
  its \<open>textContent\<close> is set; otherwise the part is cleared and gets a new text node.
  Reading \<open>previousSibling\<close> of a missing \<open>endNode\<close>, or \<open>nodeType\<close> of \<open>null\<close>, is a
  \<open>TypeError\<close>.
\<close>

definition setText :: "dom \<Rightarrow> nodePart \<Rightarrow> jsval \<Rightarrow> error + (dom \<times> nodePart)" where
  "setText d this v =
     (let n = nextSibling d (startNode this) in
      case endNode this of
        None \<Rightarrow> Inl TypeError
      | Some e \<Rightarrow>
          (case (if n = previousSibling d e
                 then (case n of
                         None \<Rightarrow> Inl TypeError
                       | Some t \<Rightarrow>
                           (if nodeType d t = TEXT_NODE
                            then Inr (set_textContent d t v, this)
                            else (let (d1, t') = new_Text d (Text_data v) in setNode d1 this t')))
                 else (let (d1, t') = new_Text d (Text_data v) in setNode d1 this t')) of
             Inl err \<Rightarrow> Inl err
           | Inr (d2, this2) \<Rightarrow>
               Inr (d2, NodePart (callback this2) (startNode this2) (endNode this2) (PValue v))))"

text \<open>
  \<open>_setPromise(value)\<close>: the callback goes to the thenable and the thenable becomes the
  previous value. The callback itself is \<open>resolved\<close> below: what runs when the thenable
  resolves.
\<close>

definition setPromise :: "dom \<Rightarrow> nodePart \<Rightarrow> ref \<Rightarrow> error + (dom \<times> nodePart)" where
  "setPromise d this r =
     Inr (d, NodePart (callback this) (startNode this) (endNode this) (PValue (Thenable r)))"

text \<open>
  \<open>value === this._previousValue\<close> for a primitive value: the previous value is that
  very primitive; \<open>NaN\<close> is not equal to itself.
\<close>

definition same_primitive :: "jsval \<Rightarrow> prev \<Rightarrow> bool" where
  "same_primitive v pv = (pv = PValue v \<and> v \<noteq> Number NaN)"

text \<open>The size of a value, for the termination of the functions below.\<close>

fun vsize :: "jsval \<Rightarrow> nat" and vsizes :: "jsval list \<Rightarrow> nat" where
  "vsize (Array xs) = Suc (vsizes xs)"
| "vsize (Iterable s xs) = Suc (vsizes xs)"
| "vsize (TemplateResult t vs) = Suc (vsizes vs)"
| "vsize (Directive v) = Suc (vsize v)"
| "vsize Undefined = 0"
| "vsize Null = 0"
| "vsize (Boolean b) = 0"
| "vsize (Number n) = 0"
| "vsize (Str s) = 0"
| "vsize (Object s) = 0"
| "vsize (Node n) = 0"
| "vsize (Thenable r) = 0"
| "vsizes [] = 0"
| "vsizes (x # xs) = Suc (vsize x + vsizes xs)"

lemma vsize_getValue: "vsize (getValue v) \<le> vsize v"
  by (cases v) (auto simp: getValue_def)

lemma vsize_js_index: "vsize (js_index vs i) \<le> vsizes vs"
proof (induction vs arbitrary: i)
  case Nil
  then show ?case by (simp add: js_index_def)
next
  case (Cons x xs)
  show ?case
  proof (cases i)
    case 0
    then show ?thesis by (simp add: js_index_def)
  next
    case (Suc j)
    then show ?thesis
      using Cons [of j] by (auto simp: js_index_def split: if_splits)
  qed
qed

text \<open>
  The instance \<open>_setTemplateResult\<close> updates: the previous value when it is an instance
  of the same \<open>Template\<close>; otherwise a new instance with the \<open>_partCallback\<close> of this
  part's instance, whose clone replaces the content of the part. The result is the
  store with the \<open>_partCallback\<close> and the \<open>_parts\<close> of that instance.
\<close>

definition instance_for :: "env \<Rightarrow> dom \<Rightarrow> nodePart \<Rightarrow> ref \<Rightarrow> error + (dom \<times> ref \<times> part list)" where
  "instance_for en d this t =
     (let fresh =
            (case clone en d t (callback this) of
               Inl e \<Rightarrow> Inl e
             | Inr (d1, fragment, ps) \<Rightarrow>
                 (case setNode d1 this fragment of
                    Inl e \<Rightarrow> Inl e
                  | Inr (d2, this2) \<Rightarrow> Inr (d2, callback this, ps)))
      in case previousValue this of
           PInstance pt pcb pps \<Rightarrow> (if pt = t then Inr (d, pcb, pps) else fresh)
         | PValue v \<Rightarrow> fresh
         | PItems ips \<Rightarrow> fresh)"

text \<open>
  The start of \<open>_setIterable\<close>: the item parts of the previous render when the previous
  value is an array; otherwise the part is cleared and the array is new.
\<close>

definition previous_itemParts :: "dom \<Rightarrow> nodePart \<Rightarrow> error + (dom \<times> nodePart list)" where
  "previous_itemParts d this =
     (case previousValue this of
        PItems ips \<Rightarrow> Inr (d, ips)
      | PValue v \<Rightarrow>
          (case clear d (startNode this) (endNode this) of Inl e \<Rightarrow> Inl e | Inr d1 \<Rightarrow> Inr (d1, []))
      | PInstance pt pcb pps \<Rightarrow>
          (case clear d (startNode this) (endNode this) of Inl e \<Rightarrow> Inl e | Inr d1 \<Rightarrow> Inr (d1, [])))"

text \<open>
  One round of the loop of \<open>_setIterable\<close> before \<open>itemPart.setValue(item)\<close>: the part at
  \<open>partIndex\<close> is reused when there is one; otherwise a part is made and pushed. The
  first part starts at the start marker of this part; a later one starts at a new empty
  text node, inserted before the end marker, which also becomes the end marker of the
  part before it.
\<close>

definition item_part :: "dom \<Rightarrow> nodePart \<Rightarrow> nodePart list \<Rightarrow> nat \<Rightarrow> error + (dom \<times> nodePart list)" where
  "item_part d this itemParts partIndex =
     (if partIndex < length itemParts then Inr (d, itemParts)
      else if partIndex > 0
      then (if partIndex - 1 < length itemParts
            then (let previousPart = itemParts ! (partIndex - 1);
                      (d1, itemStart) = new_Text d [];
                      itemParts1 = itemParts[partIndex - 1 :=
                        NodePart (callback previousPart) (startNode previousPart) (Some itemStart)
                          (previousValue previousPart)]
                  in case insert_before_end d1 (endNode this) itemStart of
                       Inl e \<Rightarrow> Inl e
                     | Inr d2 \<Rightarrow>
                         Inr (d2, itemParts1 @
                           [NodePart (callback this) itemStart (endNode this) (PValue Undefined)]))
            else Inl TypeError)
      else Inr (d, itemParts @
             [NodePart (callback this) (startNode this) (endNode this) (PValue Undefined)]))"

text \<open>
  The end of \<open>_setIterable\<close>, after the loop has stamped \<open>partIndex\<close> items: with no
  item the part is cleared and the previous value reset; with fewer items than item
  parts, everything after the last node of the last stamped part is removed and that
  part's end marker becomes the end marker of this part. The array of item parts
  itself is left as it is.
\<close>

definition finish_iterable :: "dom \<Rightarrow> nodePart \<Rightarrow> nodePart list \<Rightarrow> nat \<Rightarrow> error + (dom \<times> nodePart)" where
  "finish_iterable d this itemParts partIndex =
     (if partIndex = 0
      then (case clear d (startNode this) (endNode this) of
              Inl e \<Rightarrow> Inl e
            | Inr d1 \<Rightarrow>
                Inr (d1, NodePart (callback this) (startNode this) (endNode this) (PValue Undefined)))
      else if partIndex < length itemParts
      then (let lastPart = itemParts ! (partIndex - 1) in
            case endNode lastPart of
              None \<Rightarrow> Inl TypeError
            | Some le \<Rightarrow>
                (case previousSibling d le of
                   None \<Rightarrow> Inl TypeError
                 | Some s \<Rightarrow>
                     (case clear d s (endNode this) of
                        Inl e \<Rightarrow> Inl e
                      | Inr d1 \<Rightarrow>
                          Inr (d1, NodePart (callback this) (startNode this) (endNode this)
                                 (PItems (itemParts[partIndex - 1 :=
                                    NodePart (callback lastPart) (startNode lastPart) (endNode this)
                                      (previousValue lastPart)]))))))
      else Inr (d, NodePart (callback this) (startNode this) (endNode this) (PItems itemParts)))"

text \<open>
  \<open>NodePart.setValue\<close>, \<open>_setTemplateResult\<close>, \<open>_setIterable\<close> with its loop, and the loop
  of \<open>TemplateInstance.update\<close> from \<open>valueIndex\<close> on. Each returns the store and the
  object it worked on, updated. An exception ends the call: the model returns the
  error and drops what the call had changed until then.
\<close>

function setValue :: "env \<Rightarrow> dom \<Rightarrow> nodePart \<Rightarrow> jsval \<Rightarrow> error + (dom \<times> nodePart)"
  and setTemplateResult :: "env \<Rightarrow> dom \<Rightarrow> nodePart \<Rightarrow> ref \<Rightarrow> jsval list \<Rightarrow> error + (dom \<times> nodePart)"
  and setIterable :: "env \<Rightarrow> dom \<Rightarrow> nodePart \<Rightarrow> jsval list \<Rightarrow> error + (dom \<times> nodePart)"
  and setIterable_loop ::
    "env \<Rightarrow> dom \<Rightarrow> nodePart \<Rightarrow> nodePart list \<Rightarrow> nat \<Rightarrow> jsval list \<Rightarrow> error + (dom \<times> nodePart list \<times> nat)"
  and update :: "env \<Rightarrow> dom \<Rightarrow> part list \<Rightarrow> jsval list \<Rightarrow> nat \<Rightarrow> error + (dom \<times> part list)"
where
  "setValue en d this value0 =
     (let v = getValue value0 in
      if is_primitive v
      then (if same_primitive v (previousValue this) then Inr (d, this) else setText d this v)
      else (case v of
              TemplateResult t vs \<Rightarrow> setTemplateResult en d this t vs
            | Array xs \<Rightarrow> setIterable en d this xs
            | Iterable s xs \<Rightarrow> setIterable en d this xs
            | Node n \<Rightarrow> setNode d this n
            | Thenable r \<Rightarrow> setPromise d this r
            | _ \<Rightarrow> setText d this v))"
| "setTemplateResult en d this t vs =
     (case instance_for en d this t of
        Inl e \<Rightarrow> Inl e
      | Inr (d1, cb, ps) \<Rightarrow>
          (case update en d1 ps vs 0 of
             Inl e \<Rightarrow> Inl e
           | Inr (d2, ps2) \<Rightarrow>
               Inr (d2, NodePart (callback this) (startNode this) (endNode this) (PInstance t cb ps2))))"
| "setIterable en d this xs =
     (case previous_itemParts d this of
        Inl e \<Rightarrow> Inl e
      | Inr (d1, itemParts) \<Rightarrow>
          (case setIterable_loop en d1 this itemParts 0 xs of
             Inl e \<Rightarrow> Inl e
           | Inr (d2, itemParts2, partIndex) \<Rightarrow> finish_iterable d2 this itemParts2 partIndex))"
| "setIterable_loop en d this itemParts partIndex [] = Inr (d, itemParts, partIndex)"
| "setIterable_loop en d this itemParts partIndex (item # rest) =
     (case item_part d this itemParts partIndex of
        Inl e \<Rightarrow> Inl e
      | Inr (d1, itemParts1) \<Rightarrow>
          (case setValue en d1 (itemParts1 ! partIndex) item of
             Inl e \<Rightarrow> Inl e
           | Inr (d2, itemPart2) \<Rightarrow>
               setIterable_loop en d2 this (itemParts1[partIndex := itemPart2]) (Suc partIndex) rest))"
| "update en d [] vs valueIndex = Inr (d, [])"
| "update en d (p # ps) vs valueIndex =
     (case p of
        NP np \<Rightarrow>
          (case setValue en d np (js_index vs valueIndex) of
             Inl e \<Rightarrow> Inl e
           | Inr (d1, np1) \<Rightarrow>
               (case update en d1 ps vs (Suc valueIndex) of
                  Inl e \<Rightarrow> Inl e
                | Inr (d2, ps2) \<Rightarrow> Inr (d2, NP np1 # ps2)))
      | AP ap \<Rightarrow>
          (case update en (AttributePart_setValue d ap vs valueIndex) ps vs (valueIndex + size_ap ap) of
             Inl e \<Rightarrow> Inl e
           | Inr (d2, ps2) \<Rightarrow> Inr (d2, AP ap # ps2)))"
  by pat_completeness auto
termination
proof (relation "inv_image (less_than <*lex*> less_than)
        (\<lambda>x. case x of
           Inl (Inl (en, d, this, v)) \<Rightarrow> (vsize v + 2, 1)
         | Inl (Inr (en, d, this, t, vs)) \<Rightarrow> (vsizes vs + 3, 0)
         | Inr (Inl (en, d, this, xs)) \<Rightarrow> (vsizes xs + 3, 0)
         | Inr (Inr (Inl (en, d, this, ips, i, xs))) \<Rightarrow> (vsizes xs + 2, 0)
         | Inr (Inr (Inr (en, d, ps, vs, i))) \<Rightarrow> (vsizes vs + 2, length ps + 2))",
    goal_cases)
  case 1
  show ?case by (intro wf_inv_image wf_lex_prod wf_less_than)
next
  case (2 en d this value0 x x6)
  then have "vsize (Array x6) \<le> vsize value0"
    using vsize_getValue [of value0] by simp
  then show ?case by auto
next
  case (3 en d this value0 x x71 x72)
  then have "vsize (Iterable x71 x72) \<le> vsize value0"
    using vsize_getValue [of value0] by simp
  then show ?case by auto
next
  case (4 en d this value0 x x91 x92)
  then have "vsize (TemplateResult x91 x92) \<le> vsize value0"
    using vsize_getValue [of value0] by simp
  then show ?case by auto
next
  case (5 en d this t vs b x y xa ya)
  then show ?case by simp
next
  case (6 en d this xs b x y)
  then show ?case by simp
next
  case (7 en d this itemParts partIndex item rest b x y)
  then show ?case by simp
next
  case (8 en d this itemParts partIndex item rest b x y ba xa ya)
  then show ?case by simp
next
  case (9 en d p ps vs valueIndex x1)
  then show ?case by simp
next
  case (10 en d p ps vs valueIndex x2)
  then show ?case using vsize_js_index [of vs valueIndex] by auto
next
  case (11 en d p ps vs valueIndex x2 b x y)
  then show ?case by simp
qed

declare setValue.simps [simp del] setTemplateResult.simps [simp del] setIterable.simps [simp del]
  setIterable_loop.simps [simp del] update.simps [simp del]

text \<open>
  The callback \<open>_setPromise\<close> gave to the thenable \<open>r\<close>, run with the value \<open>v\<close> the
  thenable resolves to: \<open>setValue(v)\<close> when the previous value of the part is still that
  thenable, nothing otherwise.
\<close>

definition resolved :: "env \<Rightarrow> dom \<Rightarrow> nodePart \<Rightarrow> ref \<Rightarrow> jsval \<Rightarrow> error + (dom \<times> nodePart)" where
  "resolved en d this r v =
     (if previousValue this = PValue (Thenable r) then setValue en d this v else Inr (d, this))"

section \<open>Rendering to a container\<close>




section \<open>The specification's wording, and example states\<close>

text \<open>
  The text an attribute expression contributes, in the specification's words: each item
  of an array or of another iterable object, in iteration order; any other value as a
  whole. \<open>slot_text\<close> applies it to the value \<open>getValue\<close> returns.
\<close>

fun expression_text :: "jsval \<Rightarrow> string" where
  "expression_text (Array xs) = concat (map toString xs)"
| "expression_text (Iterable s xs) = concat (map toString xs)"
| "expression_text v = toString v"

definition slot_text :: "jsval \<Rightarrow> string" where
  "slot_text v = expression_text (getValue v)"

text \<open>Literal segments interleaved with the strings that fill the expressions.\<close>

fun interleave :: "string list \<Rightarrow> string list \<Rightarrow> string" where
  "interleave [] vs = []"
| "interleave (s # ss) [] = s"
| "interleave (s # ss) (v # vs) = s @ v @ interleave ss vs"

text \<open>Example states: keybinding registries, an empty DOM, an attribute part.\<close>

definition kb_empty :: keybindings where
  "kb_empty = \<lparr>registeredElements = (\<lambda>k. None), keyAttr = (\<lambda>e. None),
     overrideAttr = (\<lambda>e. None), offsetParent = (\<lambda>e. True)\<rparr>"

definition kb_example :: keybindings where
  "kb_example = \<lparr>registeredElements = (\<lambda>k. None)(''a'' := Some [1, 2, 3]),
     keyAttr = (\<lambda>e. Some ''a''), overrideAttr = (\<lambda>e. None),
     offsetParent = (\<lambda>e. e \<noteq> 2)\<rparr>"

definition dom_empty :: dom where
  "dom_empty = \<lparr>nodeType = (\<lambda>n. ELEMENT_NODE), nodeName = (\<lambda>n. []), nodeValue = (\<lambda>n. []),
     attributes = (\<lambda>n. []), childNodes = (\<lambda>n. []), parentNode = (\<lambda>n. None), nextNode = 0\<rparr>"

definition attr_example :: attributePart where
  "attr_example = \<lparr>element = 0, name = ''attr'', strings = [[], ''-'', []]\<rparr>"







text \<open>
  Example states: an empty template cache and parsers for \<open><p>${x}</p>\<close> and for
  \<open><div attr="${a}-${b}"></div>\<close> with the marker \<open>{{m}}\<close>; a container element and the compiled template of that literal (what
  \<open>new_Template\<close> makes of it with that parser), on the heap at \<open>0\<close>; a container
  with the two markers of a node part; arrays of numbers. \<open>and_then r v\<close> is one more
  \<open>setValue(v)\<close> on the part and the DOM of the result \<open>r\<close>.
\<close>

definition cache_empty :: templateCache where
  "cache_empty = \<lparr>templates = (\<lambda>r. None), templateObjects = (\<lambda>r. None), nextRef = 0\<rparr>"

definition parse_p :: "string \<Rightarrow> hnode list" where
  "parse_p s = [HElement ''p'' [] [HText ''{{m}}'']]"

definition parse_attr :: "string \<Rightarrow> hnode list" where
  "parse_attr s = [HElement ''div'' [(''attr'', ''{{m}}-{{m}}'')] []]"


definition template_p :: Template where
  "template_p = \<lparr>parts = [node_TemplatePart 1], content = [HElement ''p'' [] [HText [], HText []]]\<rparr>"

definition env_p :: env where
  "env_p = \<lparr>templateOf = (\<lambda>r. if r = 0 then Some template_p else None),
            callbackOf = (\<lambda>r. defaultPartCallback)\<rparr>"

definition dom_markers :: dom where
  "dom_markers = \<lparr>nodeType = (\<lambda>n. if n = 0 then ELEMENT_NODE else TEXT_NODE),
     nodeName = (\<lambda>n. if n = 0 then ''div'' else ''#text''), nodeValue = (\<lambda>n. []),
     attributes = (\<lambda>n. []), childNodes = (\<lambda>n. if n = 0 then [1, 2] else []),
     parentNode = (\<lambda>n. if n = 1 \<or> n = 2 then Some 0 else None), nextNode = 3\<rparr>"

definition part_markers :: nodePart where
  "part_markers = NodePart 0 1 (Some 2) (PValue Undefined)"

definition and_then :: "error + (dom \<times> nodePart) \<Rightarrow> jsval \<Rightarrow> error + (dom \<times> nodePart)" where
  "and_then r v = (case r of Inl e \<Rightarrow> Inl e | Inr (d, p) \<Rightarrow> setValue env_p d p v)"

definition items_123 :: jsval where
  "items_123 = Array [Number (Num 1), Number (Num 2), Number (Num 3)]"

definition items_12 :: jsval where
  "items_12 = Array [Number (Num 1), Number (Num 2)]"

definition items_124 :: jsval where
  "items_124 = Array [Number (Num 1), Number (Num 2), Number (Num 4)]"
text \<open>
  A slide with two \<open>[reveal]\<close> elements after \<open>connectedCallback\<close>, a slide before it, and
  what \<open>Number\<close> makes of a few attribute texts that are not plain runs of digits.
\<close>

definition slide_connected :: slide where
  "slide_connected = \<lparr>steps = Some 2, revealOpacity = Some [0, 0], stepAttr = None\<rparr>"

definition slide_unconnected :: slide where
  "slide_unconnected = \<lparr>steps = None, revealOpacity = None, stepAttr = None\<rparr>"

definition StringToNumber_examples :: "string \<Rightarrow> double" where
  "StringToNumber_examples s =
     (if s = ''1e3'' then Finite 1000
      else if s = ''7.5'' then Finite (15 / 2)
      else if s = '' 7 '' then Finite 7
      else if s = ''0x10'' then Finite 16
      else NotANumber)"


section \<open>Keybinding registry: dispatch order\<close>

lemma every_click_prefix: "prefix (every_click st l) (takeWhile (offsetParent st) l)"
  by (induction l) auto

lemma every_click_append_invisible:
  "\<not> offsetParent st b \<Longrightarrow> every_click st (xs @ b # ys) = every_click st xs"
  by (induction xs) auto

lemma every_click_all:
  "\<forall>x\<in>set xs. offsetParent st x \<and> \<not> override st x \<Longrightarrow> every_click st xs = xs"
  by (induction xs) auto

text \<open>
  C6, as the code has it. Two visible elements \<open>e1\<close>, then \<open>e2\<close>, get the key \<open>a\<close>, which
  no element had before. A keydown for \<open>a\<close> clicks the element at the front of the list
  of the key: an element with \<open>override\<close> is put at the front when it registers and ends
  the dispatch once clicked, so the other registrant is not invoked; elements without
  \<open>override\<close> are appended, so with no \<open>override\<close> the element registered first is clicked
  first and the one registered last is clicked after it.
\<close>

theorem two_registrants_order:
  assumes "e1 \<noteq> e2" and "registeredElements st ''a'' = None"
    and "keyAttr st e1 = None" and "keyAttr st e2 = None"
    and "offsetParent st e1" and "offsetParent st e2"
  shows "handleKeydown (kb_setAttribute (kb_setAttribute st e1 ''key'' ''a'') e2 ''key'' ''a'')
           \<lparr>key = ''a'', defaultPrevented = False\<rparr>
         = (if override st e2 then [e2] else if override st e1 then [e1] else [e1, e2])"
  using assms
  by (simp add: handleKeydown_def kb_setAttribute_def kb_attributeChangedCallback_def
      register_def unregister_def override_def Let_def)

theorem two_registrants_order_witness:
  "handleKeydown (kb_setAttribute (kb_setAttribute kb_empty 1 ''key'' ''a'') 2 ''key'' ''a'')
           \<lparr>key = ''a'', defaultPrevented = False\<rparr> = [1, 2]"
  using two_registrants_order [of 1 2 kb_empty]
  by (simp add: kb_empty_def override_def)

text \<open>
  C6 as stated fails: with two registrants without \<open>override\<close>, the element clicked first
  is not the most recently registered one (element \<open>2\<close>).
\<close>

theorem most_recent_not_first_counterexample:
  "hd (handleKeydown (kb_setAttribute (kb_setAttribute kb_empty 1 ''key'' ''a'') 2 ''key'' ''a'')
           \<lparr>key = ''a'', defaultPrevented = False\<rparr>) \<noteq> 2"
  by (simp add: handleKeydown_def kb_setAttribute_def kb_attributeChangedCallback_def
      register_def unregister_def override_def Let_def kb_empty_def)

text \<open>
  C10. When the list of the key is \<open>xs @ b # ys\<close>, every element of \<open>xs\<close> is visible and
  \<open>b\<close> is the first element whose \<open>offsetParent\<close> is \<open>null\<close>, the dispatch clicks a prefix
  of \<open>xs\<close> only: \<open>b\<close> is not clicked and nothing at or after its position is reached,
  whatever the visibility of \<open>ys\<close>. When no element of \<open>xs\<close> has \<open>override\<close>, exactly
  the elements of \<open>xs\<close> are clicked, in list order.
\<close>

theorem keydown_halts_at_invisible:
  assumes "registeredElements st (key a) = Some (xs @ b # ys)"
    and "\<not> defaultPrevented a"
    and "\<forall>x\<in>set xs. offsetParent st x"
    and "\<not> offsetParent st b"
  shows "prefix (handleKeydown st a) xs \<and> b \<notin> set (handleKeydown st a)
         \<and> ((\<forall>x\<in>set xs. \<not> override st x) \<longrightarrow> handleKeydown st a = xs)"
proof -
  have eq: "handleKeydown st a = every_click st xs"
    using assms by (simp add: handleKeydown_def every_click_append_invisible)
  have tw: "takeWhile (offsetParent st) xs = xs"
    using assms(3) by (simp add: takeWhile_eq_all_conv)
  have p: "prefix (every_click st xs) xs"
    using every_click_prefix [of st xs] tw by simp
  have "b \<notin> set xs" using assms(3,4) by auto
  with p have nb: "b \<notin> set (every_click st xs)"
    using set_mono_prefix by blast
  show ?thesis
    using eq p nb assms(3) by (simp add: every_click_all)
qed

theorem keydown_halts_at_invisible_witness:
  "handleKeydown kb_example \<lparr>key = ''a'', defaultPrevented = False\<rparr> = [1]
   \<and> registeredElements kb_example ''a'' = Some [1, 2, 3] \<and> offsetParent kb_example 3"
  using keydown_halts_at_invisible [of kb_example "\<lparr>key = ''a'', defaultPrevented = False\<rparr>" "[1]" 2 "[3]"]
  by (simp add: kb_example_def override_def)

section \<open>Slide deck: reading the hash\<close>

lemma takeWhile_digits:
  "list_all is_digit ds \<Longrightarrow> \<not> is_digit c \<Longrightarrow> takeWhile is_digit (ds @ c # r) = ds"
  by (induction ds) auto

lemma dropWhile_digits:
  "list_all is_digit ds \<Longrightarrow> \<not> is_digit c \<Longrightarrow> dropWhile is_digit (ds @ c # r) = c # r"
  by (induction ds) auto

lemma takeWhile_all: "list_all P ds \<Longrightarrow> takeWhile P ds = ds"
  by (induction ds) auto

lemma dropWhile_all: "list_all P ds \<Longrightarrow> dropWhile P ds = []"
  by (induction ds) auto

lemma hash_match_slide_step:
  assumes "ds \<noteq> []" "list_all is_digit ds" "es \<noteq> []" "list_all is_digit es"
  shows "hash_match (''slide-'' @ ds @ ''/step-'' @ es) = (Some ds, Some es)"
proof -
  have nd: "\<not> is_digit CHR ''/''" by (simp add: is_digit_def)
  have 1: "takeWhile is_digit (ds @ ''/step-'' @ es) = ds"
    using takeWhile_digits [OF assms(2) nd] by simp
  have 2: "dropWhile is_digit (ds @ ''/step-'' @ es) = ''/step-'' @ es"
    using dropWhile_digits [OF assms(2) nd] by simp
  show ?thesis
    using assms 1 2 by (simp add: hash_match_def strip_prefix_def takeWhile_all)
qed

lemma hash_match_slide:
  assumes "ds \<noteq> []" "list_all is_digit ds"
  shows "hash_match (''slide-'' @ ds) = (Some ds, None)"
  using assms by (simp add: hash_match_def strip_prefix_def takeWhile_all dropWhile_all)

text \<open>
  C7. For a hash \<open>slide-<m>/step-<n>\<close>, where \<open><m>\<close> and \<open><n>\<close> are runs of decimal digits
  (of values within the range where doubles are exact), \<open>currentSlide\<close> is \<open>m - 1\<close> and
  \<open>currentStep\<close> is \<open>n - 1\<close>; for the hash \<open>slide-<m>\<close>, with no step segment,
  \<open>currentSlide\<close> is \<open>m - 1\<close> and \<open>currentStep\<close> is \<open>0\<close>. For the empty hash both are \<open>0\<close>.
\<close>

theorem hash_slide_step:
  assumes "ds \<noteq> []" and "list_all is_digit ds" and "decimal ds \<le> 2 ^ 53"
    and "es \<noteq> []" and "list_all is_digit es" and "decimal es \<le> 2 ^ 53"
  shows "currentSlide (''slide-'' @ ds @ ''/step-'' @ es) = Num (int (decimal ds) - 1)
       \<and> currentStep (''slide-'' @ ds @ ''/step-'' @ es) = Num (int (decimal es) - 1)
       \<and> currentSlide (''slide-'' @ ds) = Num (int (decimal ds) - 1)
       \<and> currentStep (''slide-'' @ ds) = Num 0
       \<and> currentSlide [] = Num 0 \<and> currentStep [] = Num 0"
  using assms hash_match_slide_step [of ds es] hash_match_slide [of ds]
  by (simp add: currentSlide_def currentStep_def group_or_1_minus_1_def ToNumber_def
      hash_match_def strip_prefix_def)

theorem hash_slide_step_witness:
  "currentSlide ''slide-2/step-3'' = Num 1 \<and> currentStep ''slide-2/step-3'' = Num 2
   \<and> currentSlide ''slide-2'' = Num 1 \<and> currentStep ''slide-2'' = Num 0"
  using hash_slide_step [of "''2''" "''3''"]
  by (simp add: is_digit_def decimal_def digit_val_def)

section \<open>Slide: a step beyond the count\<close>

lemma all_revealed:
  "map (\<lambda>n. if js_lt (Finite (of_nat n)) (js_minus_1 (Finite (of_nat k + 1))) then 1 else (0::nat))
     [0..<k] = replicate k 1"
  by (rule nth_equalityI) (simp_all add: js_lt_def)

lemma callback_in_range:
  assumes "steps s = Some k" and "revealOpacity s = Some ops" and "length ops = unat k"
  shows "attributeChangedCallback c s ''step'' e (Some (nat_to_string (unat k + 1)))
         = Inr (s\<lparr>revealOpacity := Some (replicate (length ops) 1)\<rparr>)"
  using assms all_revealed [of "unat k"] Number_attr_steps_plus_1 [of c k]
  by (subst attributeChangedCallback.simps) (simp add: steps_plus_1_def setStep_def)

lemma nat_to_string_3: "nat_to_string 3 = ''3''"
  by (subst nat_to_string.simps) (simp add: digit_char_def)

lemma Number_attr_Infinity: "Number_attr StringToNumber (Some ''Infinity'') = PlusInfinity"
  by (simp add: Number_attr_def is_digit_def)

text \<open>
  C8. On a slide that \<open>connectedCallback\<close> has run on, with \<open>k\<close> reveal steps, setting the
  \<open>step\<close> attribute to any text \<open>v\<close> whose number is greater than \<open>k + 1\<close>, the largest step
  value the slide takes, raises no error: the attribute is written back as \<open>k + 1\<close> and
  every step is revealed. The text can have any form \<open>Number\<close> reads (\<open>1e3\<close>, \<open>7.5\<close>,
  \<open>0x10\<close>, white space around the number), whatever the language's conversion makes of
  it. In particular this holds of the decimal text of every integer \<open>t\<close> beyond \<open>k\<close> and
  up to \<open>2 ^ 53\<close>, where \<open>k + 1\<close> itself is kept as it is, and of \<open>Infinity\<close>.
\<close>

theorem step_beyond_count_is_clamped:
  assumes "steps s = Some k" and "revealOpacity s = Some ops" and "length ops = unat k"
  shows "(js_gt (Number_attr StringToNumber (Some v)) (Finite (of_nat (unat k) + 1)) \<longrightarrow>
            setAttribute_step StringToNumber s v
            = Inr (s\<lparr>stepAttr := Some (nat_to_string (unat k + 1)),
                     revealOpacity := Some (replicate (length ops) 1)\<rparr>))
       \<and> (unat k < t \<and> t \<le> 2 ^ 53 \<longrightarrow>
            setAttribute_step StringToNumber s (nat_to_string t)
            = Inr (s\<lparr>stepAttr := Some (nat_to_string (unat k + 1)),
                     revealOpacity := Some (replicate (length ops) 1)\<rparr>))
       \<and> setAttribute_step StringToNumber s ''Infinity''
           = Inr (s\<lparr>stepAttr := Some (nat_to_string (unat k + 1)),
                    revealOpacity := Some (replicate (length ops) 1)\<rparr>)"
proof -
  let ?m = "nat_to_string (unat k + 1)"
  have at_max: "setAttribute_step StringToNumber s' ?m
      = Inr (s'\<lparr>stepAttr := Some ?m, revealOpacity := Some (replicate (length ops) 1)\<rparr>)"
    if "steps s' = Some k" and "revealOpacity s' = Some ops" for s' :: slide
    using callback_in_range [where s = "s'\<lparr>stepAttr := Some ?m\<rparr>" and k = k and ops = ops
        and c = StringToNumber and e = "stepAttr s'"] that assms(3)
    by (subst setAttribute_step.simps) simp
  have beyond: "setAttribute_step StringToNumber s w
      = Inr (s\<lparr>stepAttr := Some ?m, revealOpacity := Some (replicate (length ops) 1)\<rparr>)"
    if gt: "js_gt (Number_attr StringToNumber (Some w)) (Finite (of_nat (unat k) + 1))" for w
  proof -
    let ?s1 = "s\<lparr>stepAttr := Some w\<rparr>"
    have "setAttribute_step StringToNumber s w
          = attributeChangedCallback StringToNumber ?s1 ''step'' (stepAttr s) (Some w)"
      by (subst setAttribute_step.simps) simp
    also have "\<dots> = setAttribute_step StringToNumber ?s1 ?m"
      using gt assms(1) by (subst attributeChangedCallback.simps) (simp add: steps_plus_1_def)
    also have "\<dots> = Inr (?s1\<lparr>stepAttr := Some ?m,
                            revealOpacity := Some (replicate (length ops) 1)\<rparr>)"
      using at_max [of ?s1] assms(1,2) by simp
    finally show ?thesis
      by simp
  qed
  have digits: "setAttribute_step StringToNumber s (nat_to_string t)
      = Inr (s\<lparr>stepAttr := Some ?m, revealOpacity := Some (replicate (length ops) 1)\<rparr>)"
    if "unat k < t" and "t \<le> 2 ^ 53"
  proof (cases "t = unat k + 1")
    case True
    then show ?thesis
      using at_max [of s] assms(1,2) by simp
  next
    case False
    with that(1) have "unat k + 1 < t"
      by simp
    then have "(of_nat (unat k + 1) :: rat) < of_nat t"
      by (simp only: of_nat_less_iff)
    then have "(of_nat (unat k) + 1 :: rat) < of_nat t"
      by (simp only: of_nat_add of_nat_1)
    then have "js_gt (Finite (of_nat t)) (Finite (of_nat (unat k) + 1))"
      by (simp only: js_gt.simps)
    then have "js_gt (Number_attr StringToNumber (Some (nat_to_string t)))
                 (Finite (of_nat (unat k) + 1))"
      by (simp only: Number_attr_nat_to_string [OF that(2)])
    then show ?thesis
      by (rule beyond)
  qed
  have "js_gt (Number_attr StringToNumber (Some ''Infinity'')) (Finite (of_nat (unat k) + 1))"
    by (simp add: Number_attr_Infinity)
  then have infinity: "setAttribute_step StringToNumber s ''Infinity''
      = Inr (s\<lparr>stepAttr := Some ?m, revealOpacity := Some (replicate (length ops) 1)\<rparr>)"
    by (rule beyond)
  show ?thesis
    using beyond [of v] digits infinity by blast
qed

theorem step_beyond_count_is_clamped_witness:
  "setAttribute_step StringToNumber_examples slide_connected ''1e3''
   = Inr \<lparr>steps = Some 2, revealOpacity = Some [1, 1], stepAttr = Some ''3''\<rparr>
   \<and> setAttribute_step StringToNumber_examples slide_connected ''7.5''
   = Inr \<lparr>steps = Some 2, revealOpacity = Some [1, 1], stepAttr = Some ''3''\<rparr>
   \<and> setAttribute_step StringToNumber_examples slide_connected '' 7 ''
   = Inr \<lparr>steps = Some 2, revealOpacity = Some [1, 1], stepAttr = Some ''3''\<rparr>
   \<and> setAttribute_step StringToNumber_examples slide_connected ''0x10''
   = Inr \<lparr>steps = Some 2, revealOpacity = Some [1, 1], stepAttr = Some ''3''\<rparr>
   \<and> setAttribute_step StringToNumber_examples slide_connected ''7''
   = Inr \<lparr>steps = Some 2, revealOpacity = Some [1, 1], stepAttr = Some ''3''\<rparr>
   \<and> setAttribute_step StringToNumber_examples slide_connected (nat_to_string 3)
   = Inr \<lparr>steps = Some 2, revealOpacity = Some [1, 1], stepAttr = Some ''3''\<rparr>
   \<and> setAttribute_step StringToNumber_examples slide_connected ''Infinity''
   = Inr \<lparr>steps = Some 2, revealOpacity = Some [1, 1], stepAttr = Some ''3''\<rparr>"
  using step_beyond_count_is_clamped [of slide_connected 2 "[0, 0]" StringToNumber_examples "''1e3''" 7]
    step_beyond_count_is_clamped [of slide_connected 2 "[0, 0]" StringToNumber_examples "''7.5''" 7]
    step_beyond_count_is_clamped [of slide_connected 2 "[0, 0]" StringToNumber_examples "'' 7 ''" 7]
    step_beyond_count_is_clamped [of slide_connected 2 "[0, 0]" StringToNumber_examples "''0x10''" 7]
    step_beyond_count_is_clamped [of slide_connected 2 "[0, 0]" StringToNumber_examples "''7''" 3]
  by (simp add: slide_connected_def StringToNumber_examples_def Number_attr_def is_digit_def
      decimal_def digit_val_def nat_to_string_3)

text \<open>
  C8 as stated fails: before \<open>connectedCallback\<close> has run (a \<open>step\<close> attribute written in
  the markup, or set on an element that is not yet in the document) the slide has no
  step count: the value is not clamped and the callback raises a \<open>TypeError\<close>.
\<close>

theorem step_before_connected_counterexample:
  "setAttribute_step StringToNumber_examples slide_unconnected ''7'' = Inl TypeError
   \<and> attributeChangedCallback StringToNumber_examples slide_unconnected ''step'' None (Some ''7'')
     = Inl TypeError"
  by (subst setAttribute_step.simps, (subst attributeChangedCallback.simps)+)
     (simp add: slide_unconnected_def steps_plus_1_def setStep_def)

section \<open>Attribute parts: the attribute string\<close>

lemma foldl_append_toString:
  "foldl (\<lambda>t item. t @ toString item) t0 xs = t0 @ concat (map toString xs)"
  by (induction xs arbitrary: t0) auto

lemma slot_text_code:
  "(if truthy v \<and> is_iterable v then foldl (\<lambda>t item. t @ toString item) t0 (items v)
    else t0 @ toString v) = t0 @ expression_text v"
  by (cases v) (auto simp: foldl_append_toString)

lemma setValue_loop_closed:
  "i < length strs \<Longrightarrow>
   setValue_loop strs vs start i t0 =
     t0 @ concat (map (\<lambda>j. strs ! j @ slot_text (js_index vs (start + j))) [i..<length strs - 1])
        @ last strs"
proof (induction strs vs start i t0 rule: setValue_loop.induct)
  case (1 strs vs start i t0)
  show ?case
  proof (cases "i < length strs - 1")
    case True
    then have si: "Suc i < length strs" by simp
    show ?thesis
      using "1.IH" [OF "1.prems" refl refl si] True "1.prems"
      by (subst setValue_loop.simps)
         (simp add: Let_def slot_text_code upt_conv_Cons slot_text_def)
  next
    case False
    with "1.prems" have i: "Suc i = length strs" by simp
    have ne: "strs \<noteq> []" using "1.prems" by auto
    have l: "strs ! i = last strs"
      using i ne by (metis diff_Suc_1 last_conv_nth)
    have stop: "setValue_loop strs vs start (Suc i) T = T" for T
      by (subst setValue_loop.simps) (simp add: i)
    have "setValue_loop strs vs start i t0 = t0 @ strs ! i"
      using False "1.prems" by (subst setValue_loop.simps) (simp add: Let_def stop)
    moreover have "length strs - 1 = i"
      using i by simp
    ultimately show ?thesis
      using l by (simp only: upt_conv_Nil [OF order_refl] list.map concat.simps append_Nil)
  qed
qed

lemma setValue_loop_from_0:
  "strs \<noteq> [] \<Longrightarrow>
   setValue_loop strs vs start 0 [] =
     concat (map (\<lambda>j. strs ! j @ slot_text (js_index vs (start + j))) [0..<length strs - 1])
       @ last strs"
  using setValue_loop_closed [of 0 strs vs start "[]"] by simp

lemma setValue_loop_Nil: "setValue_loop [] vs start 0 [] = []"
  by (subst setValue_loop.simps) simp

text \<open>
  C9. \<open>AttributePart.setValue\<close> makes one \<open>setAttribute\<close> call, with the text made of the
  literal strings in order, each but the last followed by the text of its expression:
  when the value bound (after \<open>getValue\<close>) is an array or another iterable object, each
  item of it converted to a string, in iteration order; any other value converted as a
  whole.
\<close>

theorem attribute_value_by_items:
  "AttributePart_setValue d this vs start =
     setAttribute d (element this) (name this)
       (concat (map (\<lambda>i. strings this ! i @ slot_text (js_index vs (start + i))) [0..<size_ap this])
        @ (if strings this = [] then [] else last (strings this)))"
proof (cases "strings this = []")
  case True
  then show ?thesis
    by (simp add: AttributePart_setValue_def setValue_loop_Nil size_ap_def)
next
  case False
  then show ?thesis
    by (simp add: AttributePart_setValue_def size_ap_def setValue_loop_from_0)
qed

lemma map_of_set_attr: "map_of (set_attr k v al) k = Some v"
  by (induction al) auto

lemma getAttribute_setAttribute: "getAttribute (setAttribute d e k v) e k = Some v"
  by (simp add: getAttribute_def setAttribute_def map_of_set_attr)

lemma interleave_concat:
  "length strs = Suc (length ss) \<Longrightarrow>
   concat (map (\<lambda>i. strs ! i @ ss ! i) [0..<length ss]) @ last strs = interleave strs ss"
proof (induction strs ss rule: interleave.induct)
  case (1 vs)
  then show ?case by simp
next
  case (2 s ss)
  then show ?case by simp
next
  case (3 s ss v vs)
  then have len: "length ss = Suc (length vs)" by simp
  then have ne: "ss \<noteq> []" by auto
  have "map (\<lambda>i. (s # ss) ! i @ (v # vs) ! i) [0..<length (v # vs)]
        = (s @ v) # map (\<lambda>i. ss ! i @ vs ! i) [0..<length vs]"
    by (simp add: upt_rec [of 0] map_Suc_upt [symmetric] del: upt_Suc)
  then show ?case
    using "3.IH" [OF len] ne by simp
qed

text \<open>The literal segments of \<open>attr="${a}-${b}"\<close>, as the constructor of \<open>Template\<close> finds them.\<close>

lemma attribute_template_example:
  "new_Template parse_attr ''{{m}}'' [''<div attr='' @ [CHR 0x22], ''-'', CHR 0x22 # ''></div>'']
   = Inr \<lparr>parts = [\<lparr>tp_type = ''attribute'', tp_index = 0, tp_name = Some ''attr'',
                      tp_rawName = Some ''attr'', tp_strings = Some [[], ''-'', []]\<rparr>],
          content = [HElement ''div'' [] []]\<rparr>"
  by code_simp

text \<open>
  C2. When the expressions of an attribute are bound to strings, \<open>setValue\<close> sets the
  attribute to the literal segments interleaved with the current strings, whatever the
  attribute held before. For \<open>attr="${a}-${b}"\<close> the segments are the empty string, \<open>-\<close>
  and the empty string: \<open>x\<close> and \<open>y\<close> give \<open>x-y\<close>, then \<open>p\<close> and \<open>y\<close> give \<open>p-y\<close>.
\<close>

theorem attribute_interleaves_strings:
  assumes "length strs = Suc (length ss)"
  shows "getAttribute
           (AttributePart_setValue d \<lparr>element = e, name = k, strings = strs\<rparr>
              (pre @ map Str ss @ post) (length pre)) e k
         = Some (interleave strs ss)"
proof -
  have idx: "\<And>i. i < length ss \<Longrightarrow>
      slot_text (js_index (pre @ map Str ss @ post) (length pre + i)) = ss ! i"
    by (simp add: js_index_def nth_append slot_text_def getValue_def)
  have m: "map (\<lambda>i. strs ! i @ slot_text (js_index (pre @ map Str ss @ post) (length pre + i)))
          [0..<length ss]
        = map (\<lambda>i. strs ! i @ ss ! i) [0..<length ss]"
    by (rule map_cong [OF refl]) (simp add: idx)
  have "strs \<noteq> []" using assms by auto
  then show ?thesis
    using assms interleave_concat [OF assms]
    by (simp add: AttributePart_setValue_def setValue_loop_from_0 getAttribute_setAttribute m)
qed

theorem attribute_interleaves_strings_witness:
  "getAttribute (AttributePart_setValue dom_empty attr_example [Str ''x'', Str ''y''] 0) 0 ''attr''
     = Some ''x-y''
   \<and> getAttribute
       (AttributePart_setValue
          (AttributePart_setValue dom_empty attr_example [Str ''x'', Str ''y''] 0)
          attr_example [Str ''p'', Str ''y''] 0) 0 ''attr''
     = Some ''p-y''"
  using attribute_interleaves_strings [of "[[], ''-'', []]" "[''x'', ''y'']" dom_empty 0 "''attr''" "[]" "[]"]
    attribute_interleaves_strings [of "[[], ''-'', []]" "[''p'', ''y'']"
      "AttributePart_setValue dom_empty attr_example [Str ''x'', Str ''y''] 0" 0 "''attr''" "[]" "[]"]
  by (simp add: attr_example_def)

section \<open>The template cache\<close>

text \<open>
  C5. After a call of \<open>html\<close> with the strings array \<open>r\<close> has returned, a second call
  with the same array returns a result with the identical \<open>Template\<close> object and leaves
  the cache as it is. When the first call compiled the array, a call with another array
  \<open>r'\<close> of equal contents, not in the cache, makes a new \<open>Template\<close> object, distinct
  from the first, with the same part list, and the first object stays as it was.
\<close>

theorem html_caches_by_identity:
  assumes "html parseHTML exprMarker st (r, strs) vs = Inr (st1, res)"
  shows "\<exists>t. res = TemplateResult t vs
          \<and> html parseHTML exprMarker st1 (r, strs) vs' = Inr (st1, TemplateResult t vs')
          \<and> (templates st r = None \<and> templates st r' = None \<and> r' \<noteq> r \<longrightarrow>
               (\<exists>st2 t' tpl. html parseHTML exprMarker st1 (r', strs) vs' = Inr (st2, TemplateResult t' vs')
                  \<and> t' \<noteq> t
                  \<and> templateObjects st2 t = Some tpl \<and> templateObjects st1 t = Some tpl
                  \<and> (\<exists>tpl'. templateObjects st2 t' = Some tpl' \<and> parts tpl' = parts tpl)))"
proof (cases "templates st r")
  case (Some t)
  with assms have "st1 = st" and "res = TemplateResult t vs"
    by (simp_all add: html_def)
  then show ?thesis
    using Some by (simp add: html_def)
next
  case None
  with assms obtain tpl where c: "new_Template parseHTML exprMarker strs = Inr tpl"
    and st1: "st1 = st\<lparr>templates := (templates st)(r := Some (nextRef st)),
                       templateObjects := (templateObjects st)(nextRef st := Some tpl),
                       nextRef := Suc (nextRef st)\<rparr>"
    and res: "res = TemplateResult (nextRef st) vs"
    by (auto simp: html_def Let_def split: sum.splits)
  have hit: "html parseHTML exprMarker st1 (r, strs) vs' = Inr (st1, TemplateResult (nextRef st) vs')"
    by (simp add: html_def st1)
  have miss: "html parseHTML exprMarker st1 (r', strs) vs'
      = Inr (st1\<lparr>templates := (templates st1)(r' := Some (Suc (nextRef st))),
                  templateObjects := (templateObjects st1)(Suc (nextRef st) := Some tpl),
                  nextRef := Suc (Suc (nextRef st))\<rparr>,
             TemplateResult (Suc (nextRef st)) vs')"
    if "templates st r' = None" and "r' \<noteq> r"
    using that c by (simp add: html_def st1 Let_def)
  show ?thesis
    using res hit miss by (simp add: st1)
qed

theorem html_caches_by_identity_witness:
  "\<exists>st1 st2. html parse_p ''{{m}}'' cache_empty (0, [''<p>'', ''</p>'']) [Str ''x''] = Inr (st1, TemplateResult 0 [Str ''x''])
     \<and> html parse_p ''{{m}}'' st1 (0, [''<p>'', ''</p>'']) [Str ''y''] = Inr (st1, TemplateResult 0 [Str ''y''])
     \<and> html parse_p ''{{m}}'' st1 (1, [''<p>'', ''</p>'']) [Str ''y''] = Inr (st2, TemplateResult 1 [Str ''y''])
     \<and> map_option parts (templateObjects st2 1) = map_option parts (templateObjects st2 0)
     \<and> map_option parts (templateObjects st2 0) = Some [node_TemplatePart 1]"
proof -
  have c: "new_Template parse_p ''{{m}}'' [''<p>'', ''</p>'']
           = Inr \<lparr>parts = [node_TemplatePart 1], content = [HElement ''p'' [] [HText [], HText []]]\<rparr>"
    by code_simp
  let ?st1 = "cache_empty\<lparr>templates := (templates cache_empty)(0 := Some 0),
                       templateObjects := (templateObjects cache_empty)(0 := Some \<lparr>parts = [node_TemplatePart 1], content = [HElement ''p'' [] [HText [], HText []]]\<rparr>),
                       nextRef := Suc 0\<rparr>"
  have h: "html parse_p ''{{m}}'' cache_empty (0, [''<p>'', ''</p>'']) [Str ''x''] = Inr (?st1, TemplateResult 0 [Str ''x''])"
    by (simp add: html_def c cache_empty_def)
  from html_caches_by_identity [OF h, where vs' = "[Str ''y'']" and r' = 1]
  obtain t st2 t' tpl tpl' where
    "TemplateResult 0 [Str ''x''] = TemplateResult t [Str ''x'']"
    "html parse_p ''{{m}}'' ?st1 (0, [''<p>'', ''</p>'']) [Str ''y''] = Inr (?st1, TemplateResult t [Str ''y''])"
    "html parse_p ''{{m}}'' ?st1 (1, [''<p>'', ''</p>'']) [Str ''y''] = Inr (st2, TemplateResult t' [Str ''y''])"
    "t' \<noteq> t" "templateObjects st2 t = Some tpl" "templateObjects ?st1 t = Some tpl"
    "templateObjects st2 t' = Some tpl'" "parts tpl' = parts tpl"
    by (auto simp: cache_empty_def)
  moreover from this have "t = 0" by simp
  moreover have "html parse_p ''{{m}}'' ?st1 (1, [''<p>'', ''</p>'']) [Str ''y'']
     = Inr (?st1\<lparr>templates := (templates ?st1)(1 := Some 1),
                  templateObjects := (templateObjects ?st1)(1 := Some \<lparr>parts = [node_TemplatePart 1], content = [HElement ''p'' [] [HText [], HText []]]\<rparr>),
                  nextRef := Suc 1\<rparr>, TemplateResult 1 [Str ''y''])"
    by (simp add: html_def c cache_empty_def)
  ultimately show ?thesis
    using h by (intro exI [of _ ?st1] exI [of _ st2]) auto
qed

section \<open>Node parts: a thenable that resolves late\<close>

lemma setValue_not_thenable:
  assumes "setValue en d this w = Inr (d', this')" and "getValue w \<noteq> Thenable r"
  shows "previousValue this' \<noteq> PValue (Thenable r)"
proof (cases "is_primitive (getValue w)")
  case True
  then show ?thesis
    using assms
    by (subst (asm) setValue.simps)
       (auto simp: Let_def setText_def same_primitive_def split: if_splits option.splits sum.splits prod.splits)
next
  case False
  then show ?thesis
    using assms
    by (subst (asm) setValue.simps, cases "getValue w")
       (auto simp: Let_def setText_def setNode_def setPromise_def setTemplateResult.simps
          setIterable.simps finish_iterable_def
          split: if_splits option.splits sum.splits prod.splits)
qed

lemma newer_write_example:
  "(case setValue env_p dom_markers (NodePart 0 1 (Some 2) (PValue (Thenable 7))) (Str ''new'') of
      Inl e \<Rightarrow> False
    | Inr (d, p) \<Rightarrow> childNodes d 0 = [1, 3, 2] \<and> nodeValue d 3 = ''new''
        \<and> p = NodePart 0 1 (Some 2) (PValue (Str ''new'')))"
  by code_simp

text \<open>
  C4. \<open>setValue\<close> with the thenable \<open>r\<close> makes \<open>r\<close> the previous value of the part. When the
  thenable resolves while it still is the previous value, the callback applies the
  resolved value through \<open>setValue\<close>. When \<open>setValue\<close> has run in between with a value
  that is not this thenable (and has returned), the callback changes neither the DOM
  nor the part.
\<close>

theorem stale_thenable_is_ignored:
  assumes "getValue w \<noteq> Thenable r"
    and "setValue en d (NodePart cb s e (PValue (Thenable r))) w = Inr (d2, this2)"
  shows "setValue en d (NodePart cb s e pv) (Thenable r) = Inr (d, NodePart cb s e (PValue (Thenable r)))
       \<and> resolved en d (NodePart cb s e (PValue (Thenable r))) r v
           = setValue en d (NodePart cb s e (PValue (Thenable r))) v
       \<and> resolved en d2 this2 r v = Inr (d2, this2)"
proof -
  have "setValue en d (NodePart cb s e pv) (Thenable r) = Inr (d, NodePart cb s e (PValue (Thenable r)))"
    by (subst setValue.simps) (simp add: getValue_def setPromise_def)
  moreover have "previousValue this2 \<noteq> PValue (Thenable r)"
    using setValue_not_thenable [OF assms(2) assms(1)] .
  ultimately show ?thesis
    by (simp add: resolved_def)
qed

theorem stale_thenable_is_ignored_witness:
  "\<exists>d2 this2.
      setValue env_p dom_markers (NodePart 0 1 (Some 2) (PValue (Thenable 7))) (Str ''new'')
        = Inr (d2, this2)
      \<and> resolved env_p d2 this2 7 (Str ''late'') = Inr (d2, this2)
      \<and> childNodes d2 0 = [1, 3, 2] \<and> nodeValue d2 3 = ''new''"
proof -
  from newer_write_example obtain d2 this2 where
    h: "setValue env_p dom_markers (NodePart 0 1 (Some 2) (PValue (Thenable 7))) (Str ''new'')
          = Inr (d2, this2)"
    and c: "childNodes d2 0 = [1, 3, 2]" and n: "nodeValue d2 3 = ''new''"
    by (auto split: sum.splits)
  have g: "getValue (Str ''new'') \<noteq> Thenable 7"
    by (simp add: getValue_def)
  from stale_thenable_is_ignored [OF g h, where v = "Str ''late''"]
  have "resolved env_p d2 this2 7 (Str ''late'') = Inr (d2, this2)"
    by simp
  with h c n show ?thesis by blast
qed

section \<open>Node parts: a shorter iterable\<close>

text \<open>
  C3, at the input of the claim. A node part between its markers (nodes 1 and 2 under
  the container 0) renders \<open>[1, 2, 3]\<close>, then \<open>[1, 2]\<close>. The text nodes of the items 0
  and 1 (nodes 3 and 5) stay, the separator before item 2 and the text node of item 2
  (nodes 6 and 7) are removed, and the end marker of the last retained item part is the
  end marker of the outer part. The item part of item 2 is still in the array of item
  parts, though, with its removed start marker. So a third render of \<open>[1, 2, 3]\<close> reuses
  that part, finds its previous value equal to the item and writes nothing: item 2 is
  not shown again. A third render of \<open>[1, 2, 4]\<close> raises a \<open>TypeError\<close>.
\<close>

theorem shrunk_iterable_keeps_stale_part:
  "(case and_then (setValue env_p dom_markers part_markers items_123) items_12 of
      Inl e \<Rightarrow> False
    | Inr (d, p) \<Rightarrow>
        childNodes d 0 = [1, 3, 4, 5, 2] \<and> map (nodeValue d) [3, 5] = [''1'', ''2'']
        \<and> parentNode d 6 = None \<and> parentNode d 7 = None
        \<and> previousValue p = PItems [NodePart 0 1 (Some 4) (PValue (Number (Num 1))),
                                     NodePart 0 4 (Some 2) (PValue (Number (Num 2))),
                                     NodePart 0 6 (Some 2) (PValue (Number (Num 3)))])
   \<and> (case and_then (and_then (setValue env_p dom_markers part_markers items_123) items_12) items_123 of
        Inl e \<Rightarrow> False
      | Inr (d, p) \<Rightarrow> childNodes d 0 = [1, 3, 4, 5, 2])
   \<and> (case and_then (and_then (setValue env_p dom_markers part_markers items_123) items_12) items_124 of
        Inl e \<Rightarrow> e = TypeError
      | Inr (d, p) \<Rightarrow> False)"
  by code_simp

section \<open>Rendering again into a container\<close>

















end
